theory Spec2Isabelle
  imports Main "HOL-Library.Multiset"
begin

section \<open>JavaScript values of the request body\<close>

text \<open>
  The body of a request is what \<^verbatim>\<open>await req.json()\<close> yields: a parsed JSON value.
  A number is a double. A finite double is a whole number (\<open>JNum n\<close>) or a fraction
  with a power of two below it (\<open>JFrac m k\<close> is \<open>m / 2 ^ k\<close>); a literal beyond the
  range of the doubles is read as an infinity (\<open>JInfinity negative\<close>). An object is its
  list of own properties, each key once. Reading a property gives \<open>json option\<close>:
  \<open>None\<close> is JavaScript's \<^verbatim>\<open>undefined\<close>.
\<close>

datatype json =
    JNull
  | JBool bool
  | JNum int
  | JFrac int nat
  | JInfinity bool
  | JStr string
  | JArr "json list"
  | JObj "(string \<times> json) list"

text \<open>
  The result of \<^verbatim>\<open>parseInt\<close>: a double that is a whole number, \<^verbatim>\<open>NaN\<close>, or an
  infinity (\<open>Infinity negative\<close>).
\<close>

datatype jsnum = Num int | NaN | Infinity bool

text \<open>What the handler and the persistence layer throw.\<close>

datatype error = SyntaxError | TypeError | ValidationError | UniqueConstraintError

text \<open>
  \<^verbatim>\<open>data.name\<close> on a value other than \<^verbatim>\<open>null\<close>. Only an object has own properties of
  the names the handler reads; on a number, a string, a boolean or an array the read
  gives \<^verbatim>\<open>undefined\<close>. The read on \<^verbatim>\<open>null\<close> throws and is a branch of the handler.
\<close>

fun js_get :: "json \<Rightarrow> string \<Rightarrow> json option" where
  "js_get (JObj props) name = map_of props name"
| "js_get _ name = None"

text \<open>Truthiness, as \<^verbatim>\<open>!x\<close> and \<^verbatim>\<open>x || y\<close> and \<^verbatim>\<open>x ? a : b\<close> test it.\<close>

fun truthy :: "json option \<Rightarrow> bool" where
  "truthy None = False"
| "truthy (Some JNull) = False"
| "truthy (Some (JBool b)) = b"
| "truthy (Some (JNum n)) = (n \<noteq> 0)"
| "truthy (Some (JFrac m k)) = (m \<noteq> 0)"
| "truthy (Some (JInfinity negative)) = True"
| "truthy (Some (JStr s)) = (s \<noteq> [])"
| "truthy (Some (JArr xs)) = True"
| "truthy (Some (JObj props)) = True"

text \<open>\<^verbatim>\<open>x || dflt\<close> where \<open>dflt\<close> is a JSON literal.\<close>

definition js_or :: "json option \<Rightarrow> json \<Rightarrow> json" where
  "js_or x dflt = (if truthy x then the x else dflt)"

subsection \<open>Number to string\<close>

text \<open>The decimal digits of a whole number that is not negative.\<close>

definition digit_char :: "int \<Rightarrow> char" where
  "digit_char d = char_of (48 + nat d)"

function decimal_digits :: "int \<Rightarrow> string" where
  "decimal_digits n =
     (if n < 10 then [digit_char n]
      else decimal_digits (n div 10) @ [digit_char (n mod 10)])"
  by pat_completeness auto
termination
  by (relation "measure nat") auto

declare decimal_digits.simps [simp del]

text \<open>The decimal numeral of a whole number.\<close>

definition int_to_string :: "int \<Rightarrow> string" where
  "int_to_string n = (if n < 0 then CHR ''-'' # decimal_digits (- n) else decimal_digits n)"

text \<open>The number of digits of \<open>n\<close> in base \<open>b\<close>.\<close>

function digit_count :: "int \<Rightarrow> int \<Rightarrow> nat" where
  "digit_count b n = (if b < 2 \<or> n < b then 1 else Suc (digit_count b (n div b)))"
  by pat_completeness auto
termination
  by (relation "measure (\<lambda>(b, n). nat n)") (auto intro: int_div_less_self)

declare digit_count.simps [simp del]

text \<open>
  \<^verbatim>\<open>Number::toString\<close> of a positive double \<open>a / 2 ^ k\<close> gives the shortest decimal
  \<open>s * 10 ^ j\<close> that is read back as the same double, the nearest one when there are
  several. A decimal is read back as the double when it lies within half a step of it
  (a quarter of a step below a power of two), the ends included when the last bit of the
  double is even. Every quantity is scaled by \<open>2 ^ K\<close> and by a power of ten, so that
  the comparisons are between whole numbers.
\<close>

definition floor_log10 :: "int \<Rightarrow> nat \<Rightarrow> int" where
  "floor_log10 a k =
     (if 2 ^ k \<le> a then int (digit_count 10 (a div 2 ^ k)) - 1
      else - int (digit_count 10 ((2 ^ k + a - 1) div a - 1)))"

text \<open>The exponent of the step between the double and the next one.\<close>

definition ulp_exponent :: "int \<Rightarrow> nat \<Rightarrow> int" where
  "ulp_exponent a k = max (int (digit_count 2 a) - 1 - int k - 52) (- 1074)"

text \<open>
  The two decimals of \<open>kd\<close> digits next to the double: the one that is read back as the
  double, if any, and the lower one for the case that none is.
\<close>

definition try_digits ::
  "nat \<Rightarrow> int \<Rightarrow> nat \<Rightarrow> int \<Rightarrow> int \<Rightarrow> bool \<Rightarrow> int \<Rightarrow> (int \<times> int) option \<times> (int \<times> int)" where
  "try_digits kd X K lo hi incl p =
     (let j = p + 1 - int kd;
          T = 10 ^ nat (- j);
          W = 2 ^ K * 10 ^ nat j;
          s = (X * T) div W;
          inside = (\<lambda>c. if incl then lo * T \<le> c \<and> c \<le> hi * T
                         else lo * T < c \<and> c < hi * T);
          below = inside (s * W);
          above = inside ((s + 1) * W)
      in (if below \<and> above then
            (if X * T - s * W < (s + 1) * W - X * T then Some (s, j)
             else if (s + 1) * W - X * T < X * T - s * W then Some (s + 1, j)
             else if even s then Some (s, j) else Some (s + 1, j))
          else if below then Some (s, j)
          else if above then Some (s + 1, j)
          else None, (s, j)))"

fun search_digits ::
  "nat \<Rightarrow> nat \<Rightarrow> int \<Rightarrow> nat \<Rightarrow> int \<Rightarrow> int \<Rightarrow> bool \<Rightarrow> int \<Rightarrow> int \<times> int" where
  "search_digits 0 kd X K lo hi incl p =
     (case try_digits kd X K lo hi incl p of (Some r, _) \<Rightarrow> r | (None, r) \<Rightarrow> r)"
| "search_digits (Suc fuel) kd X K lo hi incl p =
     (case try_digits kd X K lo hi incl p of
        (Some r, _) \<Rightarrow> r
      | (None, _) \<Rightarrow> search_digits fuel (Suc kd) X K lo hi incl p)"

text \<open>Seventeen digits are enough for every double.\<close>

definition shortest_decimal :: "int \<Rightarrow> nat \<Rightarrow> int \<times> int" where
  "shortest_decimal a k =
     (let e = ulp_exponent a k;
          K = nat (max (int k) (2 - e));
          X = a * 2 ^ (K - k);
          Q = 2 ^ nat (e - 2 + int K);
          mant = X div (4 * Q);
          lower = (if mant = 2 ^ 52 \<and> - 1074 < e then Q else 2 * Q)
      in search_digits 16 1 X K (X - lower) (X + 2 * Q) (even mant) (floor_log10 a k))"

function strip_zeros :: "int \<Rightarrow> int \<times> nat" where
  "strip_zeros S =
     (if 0 < S \<and> S mod 10 = 0
      then (case strip_zeros (S div 10) of (t, z) \<Rightarrow> (t, Suc z))
      else (S, 0))"
  by pat_completeness auto
termination
  by (relation "measure nat") (auto intro: int_div_less_self)

declare strip_zeros.simps [simp del]

text \<open>
  The digits \<open>ds\<close> with the decimal point after the \<open>n\<close>-th: plain up to 21 digits
  before the point and down to six zeros after it, with an exponent otherwise.
\<close>

definition format_digits :: "string \<Rightarrow> int \<Rightarrow> string" where
  "format_digits ds n =
     (let kk = int (length ds) in
      if kk \<le> n \<and> n \<le> 21 then ds @ replicate (nat (n - kk)) CHR ''0''
      else if 0 < n \<and> n \<le> 21 then take (nat n) ds @ ''.'' @ drop (nat n) ds
      else if - 6 < n \<and> n \<le> 0 then ''0.'' @ replicate (nat (- n)) CHR ''0'' @ ds
      else
        let ex = n - 1;
            es = (if ex < 0 then ''-'' else ''+'') @ decimal_digits \<bar>ex\<bar>
        in if kk = 1 then ds @ ''e'' @ es else take 1 ds @ ''.'' @ drop 1 ds @ ''e'' @ es)"

definition positive_to_string :: "int \<Rightarrow> nat \<Rightarrow> string" where
  "positive_to_string a k =
     (case shortest_decimal a k of
        (S, j) \<Rightarrow>
          (case strip_zeros S of
             (S', z) \<Rightarrow>
               let ds = decimal_digits S' in format_digits ds (int (length ds) + j + int z)))"

text \<open>
  \<^verbatim>\<open>Number::toString\<close> of the double \<open>m / 2 ^ k\<close>. The shortest digits of a whole
  number below \<open>2 ^ 53\<close> are all its digits.
\<close>

definition number_to_string :: "int \<Rightarrow> nat \<Rightarrow> string" where
  "number_to_string m k =
     (let a = \<bar>m\<bar>;
          digits = (if 2 ^ k dvd a \<and> a div 2 ^ k < 2 ^ 53
                    then decimal_digits (a div 2 ^ k) else positive_to_string a k)
      in if m < 0 then CHR ''-'' # digits else digits)"

subsection \<open>ToString\<close>

text \<open>
  \<^verbatim>\<open>ToString\<close>, as \<^verbatim>\<open>parseInt\<close> and \<^verbatim>\<open>new Date\<close> apply it to an argument that is
  not a string. An array is its elements joined by commas, \<^verbatim>\<open>null\<close> elements empty.
  An object is \<^verbatim>\<open>[object Object]\<close>, unless it has a property of its own called
  \<^verbatim>\<open>toString\<close>: that one is no function, the inherited \<^verbatim>\<open>valueOf\<close> gives back the
  object, and the conversion throws a \<^verbatim>\<open>TypeError\<close>.
\<close>

fun json_to_string :: "json \<Rightarrow> error + string"
  and join_elements :: "json list \<Rightarrow> error + string" where
  "json_to_string JNull = Inr ''null''"
| "json_to_string (JBool b) = Inr (if b then ''true'' else ''false'')"
| "json_to_string (JNum n) = Inr (number_to_string n 0)"
| "json_to_string (JFrac m k) = Inr (number_to_string m k)"
| "json_to_string (JInfinity negative) = Inr (if negative then ''-Infinity'' else ''Infinity'')"
| "json_to_string (JStr s) = Inr s"
| "json_to_string (JArr xs) = join_elements xs"
| "json_to_string (JObj props) =
     (if map_of props ''toString'' = None then Inr ''[object Object]'' else Inl TypeError)"
| "join_elements [] = Inr []"
| "join_elements [x] = (if x = JNull then Inr [] else json_to_string x)"
| "join_elements (x # y # ys) =
     (case (if x = JNull then Inr [] else json_to_string x) of
        Inl exn \<Rightarrow> Inl exn
      | Inr s \<Rightarrow>
          (case join_elements (y # ys) of
             Inl exn \<Rightarrow> Inl exn
           | Inr t \<Rightarrow> Inr (s @ '','' @ t)))"

definition js_to_string :: "json option \<Rightarrow> error + string" where
  "js_to_string x = (case x of None \<Rightarrow> Inr ''undefined'' | Some v \<Rightarrow> json_to_string v)"

subsection \<open>parseInt\<close>

text \<open>White space that \<^verbatim>\<open>parseInt\<close> skips, within the one-byte characters.\<close>

definition is_white_space :: "char \<Rightarrow> bool" where
  "is_white_space c = (of_char c \<in> {9, 10, 11, 12, 13, 32, 160 :: nat})"

text \<open>The value of a digit in a radix, \<open>None\<close> when the character is no digit of it.\<close>

definition digit_value :: "int \<Rightarrow> char \<Rightarrow> int option" where
  "digit_value radix c =
     (let k = of_char c :: nat;
          v = (if 48 \<le> k \<and> k \<le> 57 then Some (int (k - 48))
               else if 97 \<le> k \<and> k \<le> 122 then Some (int (k - 87))
               else if 65 \<le> k \<and> k \<le> 90 then Some (int (k - 55))
               else None)
      in case v of None \<Rightarrow> None | Some d \<Rightarrow> if d < radix then Some d else None)"

text \<open>
  The longest prefix of digits, read in the radix: the accumulator and whether a digit
  was seen. The first character that is no digit ends the number.
\<close>

fun read_digits :: "int \<Rightarrow> int \<Rightarrow> bool \<Rightarrow> string \<Rightarrow> int option" where
  "read_digits radix acc seen [] = (if seen then Some acc else None)"
| "read_digits radix acc seen (c # cs) =
     (case digit_value radix c of
        None \<Rightarrow> (if seen then Some acc else None)
      | Some d \<Rightarrow> read_digits radix (acc * radix + d) True cs)"

text \<open>
  The double nearest to a whole number that is not negative, the even one of two that
  are as near; \<open>None\<close> when the number is beyond the doubles and the result is infinite.
\<close>

definition double_of_int :: "int \<Rightarrow> int option" where
  "double_of_int N =
     (if N < 2 ^ 53 then Some N
      else
        let e = digit_count 2 N - 53;
            m = N div 2 ^ e;
            r = N mod 2 ^ e;
            half = 2 ^ (e - 1);
            m' = (if half < r \<or> (r = half \<and> odd m) then m + 1 else m);
            v = m' * 2 ^ e
        in if 2 ^ 1024 \<le> v then None else Some v)"

text \<open>
  \<^verbatim>\<open>parseInt(string)\<close> with no radix argument: leading white space, an optional sign,
  an optional \<^verbatim>\<open>0x\<close> or \<^verbatim>\<open>0X\<close> that selects radix 16, then the digits; the number
  read is a double.
\<close>

definition strip_sign :: "string \<Rightarrow> bool \<times> string" where
  "strip_sign t =
     (case t of
        c # cs \<Rightarrow> if c = CHR ''-'' then (True, cs)
                  else if c = CHR ''+'' then (False, cs) else (False, t)
      | [] \<Rightarrow> (False, t))"

definition strip_radix_prefix :: "string \<Rightarrow> int \<times> string" where
  "strip_radix_prefix u =
     (case u of
        a # b # cs \<Rightarrow> if a = CHR ''0'' \<and> (b = CHR ''x'' \<or> b = CHR ''X'')
                      then (16, cs) else (10, u)
      | _ \<Rightarrow> (10, u))"

definition parseInt_string :: "string \<Rightarrow> jsnum" where
  "parseInt_string s =
     (let (negative, u) = strip_sign (dropWhile is_white_space s);
          (radix, w) = strip_radix_prefix u
      in case read_digits radix 0 False w of
           None \<Rightarrow> NaN
         | Some m \<Rightarrow>
             (case double_of_int m of
                None \<Rightarrow> Infinity negative
              | Some v \<Rightarrow> Num (if negative then - v else v)))"

text \<open>\<^verbatim>\<open>parseInt(value)\<close>: the value is made a string first, which may throw.\<close>

definition parseInt :: "json option \<Rightarrow> error + jsnum" where
  "parseInt x = (case js_to_string x of Inl exn \<Rightarrow> Inl exn | Inr s \<Rightarrow> Inr (parseInt_string s))"

subsection \<open>Dates\<close>

text \<open>
  \<^verbatim>\<open>Date.parse\<close>: the time value in milliseconds that a date string denotes,
  \<open>None\<close> where the result is \<^verbatim>\<open>NaN\<close>. The empty string is no date. Which
  other strings are dates, and which dates they are, is the engine's matter: its parser
  is a parameter.
\<close>

definition Date_parse :: "(string \<Rightarrow> int option) \<Rightarrow> string \<Rightarrow> int option" where
  "Date_parse engine_parse s = (if s = [] then None else engine_parse s)"

text \<open>
  \<^verbatim>\<open>new Date(value)\<close>: a time value or an invalid date. A string is parsed. A
  number is cut to a whole number of milliseconds and is a date when it is within the
  range of dates; a boolean and \<^verbatim>\<open>null\<close> are first made a number; an array or an
  object is first made a string, which may throw.
\<close>

datatype js_date = Date int | InvalidDate

definition time_clip :: "int \<Rightarrow> nat \<Rightarrow> js_date" where
  "time_clip m k =
     (if \<bar>m\<bar> \<le> 8640000000000000 * 2 ^ k
      then Date (if 0 \<le> m then m div 2 ^ k else - (- m div 2 ^ k))
      else InvalidDate)"

definition new_Date :: "(string \<Rightarrow> int option) \<Rightarrow> json \<Rightarrow> error + js_date" where
  "new_Date engine_parse v =
     (let of_string = (\<lambda>s. case Date_parse engine_parse s of
                                None \<Rightarrow> InvalidDate | Some t \<Rightarrow> Date t)
      in case v of
           JStr s \<Rightarrow> Inr (of_string s)
         | JNum n \<Rightarrow> Inr (time_clip n 0)
         | JFrac m k \<Rightarrow> Inr (time_clip m k)
         | JInfinity negative \<Rightarrow> Inr InvalidDate
         | JBool b \<Rightarrow> Inr (Date (if b then 1 else 0))
         | JNull \<Rightarrow> Inr (Date 0)
         | _ \<Rightarrow> (case json_to_string v of
                    Inl exn \<Rightarrow> Inl exn
                  | Inr s \<Rightarrow> Inr (of_string s)))"

text \<open>\<^verbatim>\<open>fields.join(', ')\<close>\<close>

fun join :: "string \<Rightarrow> string list \<Rightarrow> string" where
  "join sep [] = []"
| "join sep [x] = x"
| "join sep (x # y # ys) = x @ sep @ join sep (y # ys)"

section \<open>Persistence\<close>

text \<open>
  Modelled from the spec: the persistence layer (the ORM client \<^verbatim>\<open>db\<close> and its schema)
  is not part of the sources. Section 3 of the specification gives the two entities and
  the types of the vehicle's attributes: year and capacity are integers, the license plate
  is a string that is unique over all vehicles, the foreign-plate flag is a boolean, the
  colour is an optional string, vehicle type and status are enumerations, the last
  maintenance is an optional timestamp. Make and model are strings, as in the form's
  schema. A partner is identified by an opaque id.
\<close>

datatype vehicle_type = SEDAN | SUV | VAN | LUXURY | LIMOUSINE

datatype vehicle_status = AVAILABLE | IN_USE | MAINTENANCE | OUT_OF_SERVICE

record vehicle =
  v_id :: string
  v_make :: string
  v_model :: string
  v_year :: int
  v_licensePlate :: string
  v_isForeignPlate :: bool
  v_color :: "string option"
  v_capacity :: int
  v_vehicleType :: vehicle_type
  v_status :: vehicle_status
  v_lastMaintenance :: "int option"
  v_partnerId :: string
  v_fuelType :: "json option"
  v_registrationDate :: "json option"
  v_createdAt :: int
  v_updatedAt :: int

record database =
  partners :: "string list"
  vehicles :: "vehicle list"

text \<open>
  The \<^verbatim>\<open>data\<close> object that the handler hands to \<^verbatim>\<open>db.vehicle.create\<close> (lines 100 to
  115): JavaScript values, not yet checked against the attribute types.
\<close>

record vehicle_create_data =
  data_make :: "json option"
  data_model :: "json option"
  data_year :: jsnum
  data_licensePlate :: "json option"
  data_isForeignPlate :: json
  data_color :: "json option"
  data_capacity :: jsnum
  data_vehicleType :: json
  data_status :: json
  data_lastMaintenance :: "js_date option"
  data_partnerId :: string
  data_fuelType :: "json option"
  data_registrationDate :: "json option"

text \<open>\<^verbatim>\<open>db.partner.findUnique({ where: { id } })\<close>\<close>

definition partner_findUnique :: "string \<Rightarrow> database \<Rightarrow> string option" where
  "partner_findUnique pid db = find (\<lambda>p. p = pid) (partners db)"

text \<open>
  \<^verbatim>\<open>db.vehicle.findUnique({ where: { licensePlate } })\<close>: the vehicle whose plate is
  the given value. No stored plate equals a value that is not a string.
\<close>

definition vehicle_findUnique :: "json option \<Rightarrow> database \<Rightarrow> vehicle option" where
  "vehicle_findUnique plate db =
     find (\<lambda>v. plate = Some (JStr (v_licensePlate v))) (vehicles db)"

text \<open>
  \<^verbatim>\<open>db.vehicle.findMany({ where: { partnerId }, orderBy: { createdAt: "desc" } })\<close>:
  the partner's vehicles, the latest created first (a stable sort of the stored rows).
\<close>

definition vehicle_findMany :: "string \<Rightarrow> database \<Rightarrow> vehicle list" where
  "vehicle_findMany pid db =
     sort_key (\<lambda>v. - v_createdAt v) (filter (\<lambda>v. v_partnerId v = pid) (vehicles db))"

text \<open>The checks of a value against the type of its attribute.\<close>

definition as_text :: "json option \<Rightarrow> string option" where
  "as_text x = (case x of Some (JStr s) \<Rightarrow> Some s | _ \<Rightarrow> None)"

definition as_integer :: "jsnum \<Rightarrow> int option" where
  "as_integer x = (case x of Num n \<Rightarrow> Some n | _ \<Rightarrow> None)"

definition as_boolean :: "json \<Rightarrow> bool option" where
  "as_boolean x = (case x of JBool b \<Rightarrow> Some b | _ \<Rightarrow> None)"

text \<open>An optional string: absent and \<^verbatim>\<open>null\<close> both store no value.\<close>

definition as_optional_text :: "json option \<Rightarrow> string option option" where
  "as_optional_text x =
     (case x of None \<Rightarrow> Some None | Some JNull \<Rightarrow> Some None
      | Some (JStr s) \<Rightarrow> Some (Some s) | _ \<Rightarrow> None)"

definition as_vehicle_type :: "json \<Rightarrow> vehicle_type option" where
  "as_vehicle_type x =
     (case x of
        JStr s \<Rightarrow> if s = ''SEDAN'' then Some SEDAN else if s = ''SUV'' then Some SUV
                  else if s = ''VAN'' then Some VAN else if s = ''LUXURY'' then Some LUXURY
                  else if s = ''LIMOUSINE'' then Some LIMOUSINE else None
      | _ \<Rightarrow> None)"

definition as_vehicle_status :: "json \<Rightarrow> vehicle_status option" where
  "as_vehicle_status x =
     (case x of
        JStr s \<Rightarrow> if s = ''AVAILABLE'' then Some AVAILABLE else if s = ''IN_USE'' then Some IN_USE
                  else if s = ''MAINTENANCE'' then Some MAINTENANCE
                  else if s = ''OUT_OF_SERVICE'' then Some OUT_OF_SERVICE else None
      | _ \<Rightarrow> None)"

definition as_optional_timestamp :: "js_date option \<Rightarrow> int option option" where
  "as_optional_timestamp x =
     (case x of None \<Rightarrow> Some None | Some (Date t) \<Rightarrow> Some (Some t) | Some InvalidDate \<Rightarrow> None)"

text \<open>
  The row that a \<^verbatim>\<open>data\<close> object describes, when every value fits its attribute.
  The id and the creation time are the persistence layer's own: they are given.
\<close>

definition to_vehicle :: "string \<Rightarrow> int \<Rightarrow> vehicle_create_data \<Rightarrow> vehicle option" where
  "to_vehicle new_id now d =
     (case (as_text (data_make d), as_text (data_model d), as_integer (data_year d),
            as_text (data_licensePlate d), as_boolean (data_isForeignPlate d),
            as_optional_text (data_color d), as_integer (data_capacity d),
            as_vehicle_type (data_vehicleType d), as_vehicle_status (data_status d),
            as_optional_timestamp (data_lastMaintenance d)) of
        (Some mk, Some md, Some y, Some lp, Some fp, Some c, Some cap, Some vt, Some st, Some lm) \<Rightarrow>
          Some \<lparr> v_id = new_id, v_make = mk, v_model = md, v_year = y, v_licensePlate = lp,
                 v_isForeignPlate = fp, v_color = c, v_capacity = cap, v_vehicleType = vt,
                 v_status = st, v_lastMaintenance = lm, v_partnerId = data_partnerId d,
                 v_fuelType = data_fuelType d, v_registrationDate = data_registrationDate d,
                 v_createdAt = now, v_updatedAt = now \<rparr>
      | _ \<Rightarrow> None)"

text \<open>
  \<^verbatim>\<open>db.vehicle.create({ data })\<close>: a value that does not fit its attribute is refused,
  and so is a plate that a stored vehicle has (the unique constraint); otherwise the row
  is stored and returned.
\<close>

definition vehicle_create ::
  "string \<Rightarrow> int \<Rightarrow> vehicle_create_data \<Rightarrow> database \<Rightarrow> error + vehicle \<times> database" where
  "vehicle_create new_id now d db =
     (case to_vehicle new_id now d of
        None \<Rightarrow> Inl ValidationError
      | Some v \<Rightarrow>
          if v_licensePlate v \<in> set (map v_licensePlate (vehicles db))
          then Inl UniqueConstraintError
          else Inr (v, db\<lparr>vehicles := vehicles db @ [v]\<rparr>))"

section \<open>The vehicle collection endpoint\<close>

text \<open>
  A request as a handler sees it: the caller identity that \<^verbatim>\<open>auth()\<close> resolves
  (\<open>None\<close> is \<^verbatim>\<open>null\<close>), the \<^verbatim>\<open>partnerId\<close> of the route, and the body as
  \<^verbatim>\<open>req.json()\<close> reads it (\<open>None\<close> when the body is not JSON and the read throws).
\<close>

record request =
  userId :: "string option"
  params_partnerId :: string
  body :: "json option"

datatype payload =
    ErrorJson string
  | VehicleJson vehicle
  | VehiclesJson "vehicle list"

datatype response = Response (status_code: nat) (json_body: payload)

text \<open>\<^verbatim>\<open>!userId\<close> is false for a non-empty string only.\<close>

definition authenticated :: "request \<Rightarrow> bool" where
  "authenticated req = (case userId req of None \<Rightarrow> False | Some u \<Rightarrow> u \<noteq> [])"

subsection \<open>GET\<close>

definition GET :: "request \<Rightarrow> database \<Rightarrow> response" where
  "GET req db =
     (if \<not> authenticated req then Response 401 (ErrorJson ''Unauthorized'')
      else
        let partnerId = params_partnerId req in
        case partner_findUnique partnerId db of
          None \<Rightarrow> Response 404 (ErrorJson ''Partner not found'')
        | Some partner \<Rightarrow> Response 200 (VehiclesJson (vehicle_findMany partnerId db)))"

subsection \<open>POST\<close>

text \<open>Lines 68 to 72: the names of the required fields whose value is falsy.\<close>

definition missingFields :: "json \<Rightarrow> string list" where
  "missingFields data =
     (if \<not> truthy (js_get data ''brand'') then [''brand''] else []) @
     (if \<not> truthy (js_get data ''model'') then [''model''] else []) @
     (if \<not> truthy (js_get data ''year'') then [''year''] else []) @
     (if \<not> truthy (js_get data ''licensePlate'') then [''licensePlate''] else [])"

text \<open>
  Lines 95 to 115: the numeric fields and the object given to \<^verbatim>\<open>create\<close>. The two
  calls of \<^verbatim>\<open>parseInt\<close> and the call of \<^verbatim>\<open>new Date\<close> may throw; nothing else
  in these lines does.
\<close>

definition create_data ::
  "(string \<Rightarrow> int option) \<Rightarrow> json \<Rightarrow> string \<Rightarrow> error + vehicle_create_data" where
  "create_data date_parse data partnerId =
     (case parseInt (js_get data ''year'') of
        Inl exn \<Rightarrow> Inl exn
      | Inr year \<Rightarrow>
          (case parseInt (js_get data ''capacity'') of
             Inl exn \<Rightarrow> Inl exn
           | Inr capacity \<Rightarrow>
               (case (if truthy (js_get data ''lastMaintenance'')
                      then (case new_Date date_parse (the (js_get data ''lastMaintenance'')) of
                              Inl exn \<Rightarrow> Inl exn
                            | Inr date \<Rightarrow> Inr (Some date))
                      else Inr None) of
                  Inl exn \<Rightarrow> Inl exn
                | Inr lastMaintenance \<Rightarrow>
                    Inr \<lparr> data_make = js_get data ''brand'',
                          data_model = js_get data ''model'',
                          data_year = year,
                          data_licensePlate = js_get data ''licensePlate'',
                          data_isForeignPlate =
                            js_or (js_get data ''isForeignPlate'') (JBool False),
                          data_color = js_get data ''color'',
                          data_capacity = capacity,
                          data_vehicleType =
                            js_or (js_get data ''vehicleType'') (JStr ''SEDAN''),
                          data_status = js_or (js_get data ''status'') (JStr ''AVAILABLE''),
                          data_lastMaintenance = lastMaintenance,
                          data_partnerId = partnerId,
                          data_fuelType = js_get data ''fuelType'',
                          data_registrationDate = js_get data ''registrationDate'' \<rparr>)))"

text \<open>The \<^verbatim>\<open>catch\<close> block: any exception becomes a 500 and nothing is written.\<close>

definition failed_to_add :: "database \<Rightarrow> response \<times> database" where
  "failed_to_add db = (Response 500 (ErrorJson ''Failed to add vehicle''), db)"

text \<open>
  The handler, in the order of the source. The persistence layer's \<^verbatim>\<open>create\<close> and
  the engine's date parser are parameters. The result is the response and the database
  after the request. Reading \<^verbatim>\<open>data.brand\<close> (line 67) throws when the body is
  \<^verbatim>\<open>null\<close>; an exception in lines 95 to 115 is caught before \<^verbatim>\<open>create\<close> is
  called.
\<close>

definition POST ::
  "(vehicle_create_data \<Rightarrow> database \<Rightarrow> error + vehicle \<times> database) \<Rightarrow>
   (string \<Rightarrow> int option) \<Rightarrow> request \<Rightarrow> database \<Rightarrow> response \<times> database" where
  "POST db_vehicle_create date_parse req db =
     (if \<not> authenticated req then (Response 401 (ErrorJson ''Unauthorized''), db)
      else
        let partnerId = params_partnerId req in
        case body req of
          None \<Rightarrow> failed_to_add db
        | Some data \<Rightarrow>
            (case partner_findUnique partnerId db of
               None \<Rightarrow> (Response 404 (ErrorJson ''Partner not found''), db)
             | Some partner \<Rightarrow>
                 if data = JNull then failed_to_add db
                 else if \<not> truthy (js_get data ''brand'') \<or> \<not> truthy (js_get data ''model'') \<or>
                         \<not> truthy (js_get data ''year'') \<or> \<not> truthy (js_get data ''licensePlate'')
                 then (Response 400 (ErrorJson (''Missing required fields: '' @
                                                join '', '' (missingFields data))), db)
                 else
                   (case vehicle_findUnique (js_get data ''licensePlate'') db of
                      Some existingVehicle \<Rightarrow>
                        (Response 400
                           (ErrorJson ''A vehicle with this license plate already exists''), db)
                    | None \<Rightarrow>
                        (case create_data date_parse data partnerId of
                           Inl exn \<Rightarrow> failed_to_add db
                         | Inr vehicle_data \<Rightarrow>
                             (case db_vehicle_create vehicle_data db of
                                Inl exn \<Rightarrow> failed_to_add db
                              | Inr (vehicle, db') \<Rightarrow>
                                  (Response 200 (VehicleJson vehicle), db'))))))"

subsection \<open>Words of the specification\<close>

text \<open>The four required fields, in the order in which the handler tests them.\<close>

definition required_fields :: "string list" where
  "required_fields = [''brand'', ''model'', ''year'', ''licensePlate'']"



text \<open>
  A string with no leading integer: after the white space at its start and one sign, if
  there is one, it does not go on with a digit.
\<close>

definition is_digit :: "char \<Rightarrow> bool" where
  "is_digit c = (c \<in> set ''0123456789'')"

definition white_space :: "char list" where
  "white_space = map char_of [9, 10, 11, 12, 13, 32, 160 :: nat]"

fun skip_white_space :: "string \<Rightarrow> string" where
  "skip_white_space [] = []"
| "skip_white_space (c # cs) = (if c \<in> set white_space then skip_white_space cs else c # cs)"

fun first_is_no_digit :: "string \<Rightarrow> bool" where
  "first_is_no_digit [] = True"
| "first_is_no_digit (c # cs) = (\<not> is_digit c)"

definition no_leading_integer :: "string \<Rightarrow> bool" where
  "no_leading_integer s =
     (case skip_white_space s of
        [] \<Rightarrow> True
      | c # cs \<Rightarrow> if c = CHR ''-'' \<or> c = CHR ''+'' then first_is_no_digit cs
                  else \<not> is_digit c)"

subsection \<open>Sample data\<close>

text \<open>A stored sedan with the given id, plate, partner and creation time.\<close>

definition sample_vehicle :: "string \<Rightarrow> string \<Rightarrow> string \<Rightarrow> int \<Rightarrow> vehicle" where
  "sample_vehicle vid plate pid t =
     \<lparr> v_id = vid, v_make = ''Mercedes'', v_model = ''S-Class'', v_year = 2022,
        v_licensePlate = plate, v_isForeignPlate = False, v_color = None, v_capacity = 4,
        v_vehicleType = SEDAN, v_status = AVAILABLE, v_lastMaintenance = None,
        v_partnerId = pid, v_fuelType = None, v_registrationDate = None,
        v_createdAt = t, v_updatedAt = t \<rparr>"

section \<open>The plate of the car form\<close>

subsection \<open>The plate format\<close>

text \<open>
  The regular expression \<^verbatim>\<open>/^[A-Z]{2}-\d{3}-[A-Z]{2}$/\<close> of \<^verbatim>\<open>isFrenchPlateFormat\<close>:
  a sequence of atoms, each with the number of times it is repeated, anchored at both
  ends. Without the multiline flag \<^verbatim>\<open>$\<close> is the end of the input and nothing else.
\<close>

datatype atom = Range char char | Digit | Literal char

fun atom_matches :: "atom \<Rightarrow> char \<Rightarrow> bool" where
  "atom_matches (Range lo hi) c = ((of_char lo :: nat) \<le> of_char c \<and> (of_char c :: nat) \<le> of_char hi)"
| "atom_matches Digit c = ((48 :: nat) \<le> of_char c \<and> (of_char c :: nat) \<le> 57)"
| "atom_matches (Literal l) c = (c = l)"

fun regex_test :: "(atom \<times> nat) list \<Rightarrow> string \<Rightarrow> bool" where
  "regex_test [] s = (s = [])"
| "regex_test ((a, 0) # rest) s = regex_test rest s"
| "regex_test ((a, Suc n) # rest) [] = False"
| "regex_test ((a, Suc n) # rest) (c # cs) = (atom_matches a c \<and> regex_test ((a, n) # rest) cs)"

definition plate_regex :: "(atom \<times> nat) list" where
  "plate_regex =
     [(Range CHR ''A'' CHR ''Z'', 2), (Literal CHR ''-'', 1), (Digit, 3),
      (Literal CHR ''-'', 1), (Range CHR ''A'' CHR ''Z'', 2)]"

definition isFrenchPlateFormat :: "string \<Rightarrow> bool" where
  "isFrenchPlateFormat plate = regex_test plate_regex plate"

text \<open>
  The words of the specification: two uppercase letters, a hyphen, three digits, a
  hyphen, and two uppercase letters, and nothing more.
\<close>

definition is_uppercase_letter :: "char \<Rightarrow> bool" where
  "is_uppercase_letter c = (c \<in> set ''ABCDEFGHIJKLMNOPQRSTUVWXYZ'')"

definition xx_123_xx :: "string \<Rightarrow> bool" where
  "xx_123_xx s =
     (length s = 9 \<and>
      is_uppercase_letter (s ! 0) \<and> is_uppercase_letter (s ! 1) \<and> s ! 2 = CHR ''-'' \<and>
      is_digit (s ! 3) \<and> is_digit (s ! 4) \<and> is_digit (s ! 5) \<and> s ! 6 = CHR ''-'' \<and>
      is_uppercase_letter (s ! 7) \<and> is_uppercase_letter (s ! 8))"

subsection \<open>The debounced lookup\<close>

text \<open>
  What the effect of \<^verbatim>\<open>SimpleCarForm\<close> (lines 110 to 118) reads and writes: the two
  watched fields, and the pending timer with the time at which it is due and the plate
  that its callback has captured. Time is the clock of the page, in milliseconds. Two
  fields are for the statements only, the component does not read them: \<open>lastKeystroke\<close>
  is the time of the last keystroke in the plate field, \<open>lastChange\<close> the time of the
  last render that ran the effect.
\<close>

record car_form =
  isFrenchPlate :: bool
  licensePlate :: string
  timer :: "(nat \<times> string) option"
  clock :: nat
  lastKeystroke :: "nat option"
  lastChange :: nat

definition quiet_period :: nat where
  "quiet_period = 1000"

text \<open>The body of the effect: it sets the timer when the three conditions hold.\<close>

definition effect :: "car_form \<Rightarrow> car_form" where
  "effect f =
     (let f' = f\<lparr>lastChange := clock f\<rparr> in
      if isFrenchPlate f \<and> licensePlate f \<noteq> [] \<and> isFrenchPlateFormat (licensePlate f)
      then f'\<lparr>timer := Some (clock f + quiet_period, licensePlate f)\<rparr>
      else f')"

text \<open>The cleanup that the effect returned: \<^verbatim>\<open>clearTimeout(timer)\<close>.\<close>

definition cleanup :: "car_form \<Rightarrow> car_form" where
  "cleanup f = f\<lparr>timer := None\<rparr>"

text \<open>
  The first render runs the effect on the default values: the toggle is on unless the
  defaults say \<^verbatim>\<open>false\<close>, the plate is the default plate or empty.
\<close>

definition mount :: "bool \<Rightarrow> string \<Rightarrow> car_form" where
  "mount toggle plate =
     effect \<lparr>isFrenchPlate = toggle, licensePlate = plate, timer = None, clock = 0,
             lastKeystroke = None, lastChange = 0\<rparr>"

text \<open>
  What happens to the form: a keystroke in the plate field leaves a text in it (the same
  text after a key that changes nothing), the toggle is switched, or time passes. A
  render in which a dependency of the effect has changed runs the cleanup of the last
  effect and then the effect; a render with the same dependencies runs neither. When time
  passes and the timer is due, its callback calls \<^verbatim>\<open>fetchVehicleData\<close> with the
  captured plate. A step gives the form after it and the plates looked up during it.
\<close>

datatype form_event = Keystroke string | Toggle bool | Elapse nat

fun step :: "form_event \<Rightarrow> car_form \<Rightarrow> car_form \<times> string list" where
  "step (Keystroke s) f =
     (let f' = f\<lparr>lastKeystroke := Some (clock f)\<rparr> in
      if s = licensePlate f then (f', [])
      else (effect (cleanup (f'\<lparr>licensePlate := s\<rparr>)), []))"
| "step (Toggle b) f =
     (if b = isFrenchPlate f then (f, [])
      else (effect (cleanup (f\<lparr>isFrenchPlate := b\<rparr>)), []))"
| "step (Elapse dt) f =
     (let f' = f\<lparr>clock := clock f + dt\<rparr>
      in case timer f of
           None \<Rightarrow> (f', [])
         | Some (due, plate) \<Rightarrow>
             if due \<le> clock f' then (f'\<lparr>timer := None\<rparr>, [plate]) else (f', []))"

text \<open>The form after a sequence of events.\<close>

fun run :: "form_event list \<Rightarrow> car_form \<Rightarrow> car_form" where
  "run [] f = f"
| "run (e # es) f = run es (fst (step e f))"

text \<open>
  What holds of the form at every moment: the last run of the effect is not in the
  future, and a pending timer has captured the plate of the field, was set with the
  toggle on and a plate of the format, and is due a quiet period after the last run of
  the effect.
\<close>

definition form_ok :: "car_form \<Rightarrow> bool" where
  "form_ok f =
     (lastChange f \<le> clock f \<and>
      (case timer f of
         None \<Rightarrow> True
       | Some (due, plate) \<Rightarrow>
           plate = licensePlate f \<and> isFrenchPlate f \<and> isFrenchPlateFormat plate \<and>
           due = lastChange f + quiet_period))"

section \<open>Facts about the lookups\<close>

lemma partner_findUnique_None_iff:
  "partner_findUnique pid db = None \<longleftrightarrow> pid \<notin> set (partners db)"
  by (auto simp: partner_findUnique_def find_None_iff)

lemma partner_findUnique_Some_iff:
  "(\<exists>p. partner_findUnique pid db = Some p) \<longleftrightarrow> pid \<in> set (partners db)"
  using partner_findUnique_None_iff [of pid db] by auto

lemma partner_findUnique_SomeD:
  "partner_findUnique pid db = Some p \<Longrightarrow> pid \<in> set (partners db)"
  using partner_findUnique_None_iff [of pid db] by auto

lemma vehicle_findUnique_None_iff:
  "vehicle_findUnique x db = None \<longleftrightarrow>
     (\<forall>v \<in> set (vehicles db). x \<noteq> Some (JStr (v_licensePlate v)))"
  by (auto simp: vehicle_findUnique_def find_None_iff)

lemma vehicle_findUnique_stored:
  assumes "v \<in> set (vehicles db)"
  shows "\<exists>w. vehicle_findUnique (Some (JStr (v_licensePlate v))) db = Some w"
proof -
  have "vehicle_findUnique (Some (JStr (v_licensePlate v))) db \<noteq> None"
    using assms by (auto simp: vehicle_findUnique_None_iff)
  then show ?thesis by auto
qed

section \<open>The branches of POST\<close>

lemma POST_unauthenticated:
  "\<not> authenticated req \<Longrightarrow> POST cr dp req db = (Response 401 (ErrorJson ''Unauthorized''), db)"
  by (simp add: POST_def)

lemma POST_body_unreadable:
  "authenticated req \<Longrightarrow> body req = None \<Longrightarrow> POST cr dp req db = failed_to_add db"
  by (simp add: POST_def)

lemma POST_no_partner:
  assumes "authenticated req" and "body req = Some data"
    and "params_partnerId req \<notin> set (partners db)"
  shows "POST cr dp req db = (Response 404 (ErrorJson ''Partner not found''), db)"
  using assms by (simp add: POST_def partner_findUnique_None_iff [symmetric])

lemma POST_no_partner_no_write:
  assumes "params_partnerId req \<notin> set (partners db)"
  shows "snd (POST cr dp req db) = db"
  using assms
  by (auto simp: POST_def Let_def failed_to_add_def partner_findUnique_None_iff [symmetric]
           split: option.splits)

lemma POST_400_reached:
  assumes "status_code (fst (POST cr dp req db)) = 400"
  shows "params_partnerId req \<in> set (partners db) \<and> authenticated req"
  using assms
  by (auto simp: POST_def failed_to_add_def Let_def dest: partner_findUnique_SomeD
           split: option.splits sum.splits prod.splits if_splits)

lemma missingFields_filter:
  "missingFields data = filter (\<lambda>f. \<not> truthy (js_get data f)) required_fields"
  by (simp add: missingFields_def required_fields_def)

lemma POST_missing:
  assumes "authenticated req" and "body req = Some data" and "data \<noteq> JNull"
    and "params_partnerId req \<in> set (partners db)"
    and "\<exists>f \<in> set required_fields. \<not> truthy (js_get data f)"
  shows "POST cr dp req db =
     (Response 400 (ErrorJson (''Missing required fields: '' @
                               join '', '' (missingFields data))), db)"
proof -
  obtain p where "partner_findUnique (params_partnerId req) db = Some p"
    using assms(4) partner_findUnique_Some_iff by blast
  then show ?thesis using assms by (auto simp: POST_def required_fields_def)
qed

lemma POST_duplicate:
  assumes "authenticated req" and "body req = Some data"
    and "params_partnerId req \<in> set (partners db)"
    and "truthy (js_get data ''brand'')" and "truthy (js_get data ''model'')"
    and "truthy (js_get data ''year'')" and "truthy (js_get data ''licensePlate'')"
    and "v \<in> set (vehicles db)"
    and "js_get data ''licensePlate'' = Some (JStr (v_licensePlate v))"
  shows "POST cr dp req db =
     (Response 400 (ErrorJson ''A vehicle with this license plate already exists''), db)"
proof -
  obtain p where p: "partner_findUnique (params_partnerId req) db = Some p"
    using assms(3) partner_findUnique_Some_iff by blast
  obtain w where w: "vehicle_findUnique (js_get data ''licensePlate'') db = Some w"
    using vehicle_findUnique_stored [OF assms(8)] assms(9) by auto
  have "data \<noteq> JNull" using assms(9) by auto
  then show ?thesis using assms p w by (simp add: POST_def)
qed

lemma POST_duplicate_no_write:
  assumes "body req = Some data" and "v \<in> set (vehicles db)"
    and "js_get data ''licensePlate'' = Some (JStr (v_licensePlate v))"
  shows "snd (POST cr dp req db) = db"
proof -
  obtain w where w: "vehicle_findUnique (js_get data ''licensePlate'') db = Some w"
    using vehicle_findUnique_stored [OF assms(2)] assms(3) by auto
  show ?thesis using assms(1) w
    by (auto simp: POST_def failed_to_add_def Let_def split: option.splits)
qed

text \<open>
  When no check of the handler stops the request, lines 95 to 115 are run: an exception
  there is answered by the \<^verbatim>\<open>catch\<close> block, and otherwise the answer is the answer
  of the persistence layer to the \<^verbatim>\<open>create\<close> call.
\<close>

lemma POST_reaches_create:
  assumes "authenticated req" and "body req = Some data" and "data \<noteq> JNull"
    and "params_partnerId req \<in> set (partners db)"
    and "\<forall>f \<in> set required_fields. truthy (js_get data f)"
    and "\<forall>v \<in> set (vehicles db). js_get data ''licensePlate'' \<noteq> Some (JStr (v_licensePlate v))"
  shows "POST cr dp req db =
     (case create_data dp data (params_partnerId req) of
        Inl exn \<Rightarrow> failed_to_add db
      | Inr vehicle_data \<Rightarrow>
          (case cr vehicle_data db of
             Inl exn \<Rightarrow> failed_to_add db
           | Inr (vehicle, db') \<Rightarrow> (Response 200 (VehicleJson vehicle), db')))"
proof -
  obtain p where p: "partner_findUnique (params_partnerId req) db = Some p"
    using assms(4) partner_findUnique_Some_iff by blast
  have w: "vehicle_findUnique (js_get data ''licensePlate'') db = None"
    using assms(6) by (simp add: vehicle_findUnique_None_iff)
  show ?thesis using assms(1,2,3,5) p w by (simp add: POST_def required_fields_def)
qed

text \<open>A 200 comes from the \<^verbatim>\<open>create\<close> call only.\<close>

lemma POST_200_created:
  assumes "POST cr dp req db = (Response 200 (VehicleJson v), db')"
  shows "\<exists>data d. body req = Some data \<and> data \<noteq> JNull \<and> authenticated req \<and>
           params_partnerId req \<in> set (partners db) \<and>
           (\<forall>f \<in> set required_fields. truthy (js_get data f)) \<and>
           create_data dp data (params_partnerId req) = Inr d \<and>
           cr d db = Inr (v, db')"
  using assms
  by (auto simp: POST_def failed_to_add_def Let_def required_fields_def
           dest: partner_findUnique_SomeD
           split: option.splits sum.splits prod.splits if_splits)

section \<open>Claims about POST\<close>

text \<open>
  C2, as amended. An authenticated POST whose partnerId names no stored partner writes
  nothing, whatever its body; and when its body is JSON, the answer is 404
  \<open>Partner not found\<close>. The body is read before the partner is looked up, so a body that
  is not JSON is answered by the \<^verbatim>\<open>catch\<close> block instead.
\<close>

theorem POST_unknown_partner_404:
  assumes "authenticated req" and "params_partnerId req \<notin> set (partners db)"
  shows "snd (POST cr dp req db) = db \<and>
         (\<forall>data. body req = Some data \<longrightarrow>
            fst (POST cr dp req db) = Response 404 (ErrorJson ''Partner not found''))"
  using assms POST_no_partner [of req _ db cr dp] POST_no_partner_no_write [of req db cr dp]
  by simp

theorem POST_unknown_partner_404_witness:
  "authenticated \<lparr>userId = Some ''user_1'', params_partnerId = ''p9'',
                   body = Some (JObj [(''brand'', JStr ''Mercedes'')])\<rparr> \<and>
   ''p9'' \<notin> set (partners \<lparr>partners = [''p1''], vehicles = []\<rparr>) \<and>
   POST (vehicle_create ''v1'' 0) Map.empty
     \<lparr>userId = Some ''user_1'', params_partnerId = ''p9'',
        body = Some (JObj [(''brand'', JStr ''Mercedes'')])\<rparr>
     \<lparr>partners = [''p1''], vehicles = []\<rparr> =
   (Response 404 (ErrorJson ''Partner not found''), \<lparr>partners = [''p1''], vehicles = []\<rparr>)"
  using POST_unknown_partner_404
    [of "\<lparr>userId = Some ''user_1'', params_partnerId = ''p9'',
           body = Some (JObj [(''brand'', JStr ''Mercedes'')])\<rparr>"
        "\<lparr>partners = [''p1''], vehicles = []\<rparr>" "vehicle_create ''v1'' 0" Map.empty]
  by (simp add: authenticated_def prod_eq_iff)

text \<open>
  The claim as stated fails for an authenticated POST whose body is not JSON: the partner
  does not exist and the answer is 500.
\<close>

theorem POST_unknown_partner_counterexample:
  "authenticated \<lparr>userId = Some ''user_1'', params_partnerId = ''p9'', body = None\<rparr> \<and>
   ''p9'' \<notin> set (partners \<lparr>partners = [''p1''], vehicles = []\<rparr>) \<and>
   fst (POST (vehicle_create ''v1'' 0) Map.empty
          \<lparr>userId = Some ''user_1'', params_partnerId = ''p9'', body = None\<rparr>
          \<lparr>partners = [''p1''], vehicles = []\<rparr>) =
   Response 500 (ErrorJson ''Failed to add vehicle'')"
  by (simp add: authenticated_def POST_def failed_to_add_def)

text \<open>
  C8, as amended. The partner is looked up before the fields are validated and before
  the plate is searched: an authenticated POST with a JSON body that names no stored
  partner is answered 404, whatever the body holds (required fields missing, a plate that
  is already stored, or \<^verbatim>\<open>null\<close>); and every answer 400 is given to an authenticated
  request for a stored partner.
\<close>

theorem POST_partner_check_first:
  "(authenticated req \<and> body req = Some data \<and> params_partnerId req \<notin> set (partners db) \<longrightarrow>
      POST cr dp req db = (Response 404 (ErrorJson ''Partner not found''), db)) \<and>
   (status_code (fst (POST cr dp req db)) = 400 \<longrightarrow>
      authenticated req \<and> params_partnerId req \<in> set (partners db))"
  using POST_no_partner [of req data db cr dp] POST_400_reached [of cr dp req db]
  by blast

text \<open>
  At a body that omits three required fields and carries the plate of a stored vehicle,
  sent for a partner that does not exist; and at the same body sent for the stored
  partner, where the answer is 400.
\<close>

theorem POST_partner_check_first_witness:
  "authenticated \<lparr>userId = Some ''user_1'', params_partnerId = ''p9'',
                   body = Some (JObj [(''licensePlate'', JStr ''AB-123-CD'')])\<rparr> \<and>
   ''p9'' \<notin> set (partners \<lparr>partners = [''p1''], vehicles = []\<rparr>) \<and>
   POST (vehicle_create ''v1'' 0) Map.empty
     \<lparr>userId = Some ''user_1'', params_partnerId = ''p9'',
        body = Some (JObj [(''licensePlate'', JStr ''AB-123-CD'')])\<rparr>
     \<lparr>partners = [''p1''], vehicles = []\<rparr> =
   (Response 404 (ErrorJson ''Partner not found''), \<lparr>partners = [''p1''], vehicles = []\<rparr>) \<and>
   status_code (fst (POST (vehicle_create ''v1'' 0) Map.empty
     \<lparr>userId = Some ''user_1'', params_partnerId = ''p1'',
        body = Some (JObj [(''licensePlate'', JStr ''AB-123-CD'')])\<rparr>
     \<lparr>partners = [''p1''], vehicles = []\<rparr>)) = 400 \<and>
   ''p1'' \<in> set (partners \<lparr>partners = [''p1''], vehicles = []\<rparr>)"
proof -
  have first: "authenticated \<lparr>userId = Some ''user_1'', params_partnerId = ''p9'',
                   body = Some (JObj [(''licensePlate'', JStr ''AB-123-CD'')])\<rparr>"
    by (simp add: authenticated_def)
  have second: "status_code (fst (POST (vehicle_create ''v1'' 0) Map.empty
     \<lparr>userId = Some ''user_1'', params_partnerId = ''p1'',
        body = Some (JObj [(''licensePlate'', JStr ''AB-123-CD'')])\<rparr>
     \<lparr>partners = [''p1''], vehicles = []\<rparr>)) = 400"
    by (simp add: POST_def authenticated_def partner_findUnique_def)
  show ?thesis
    using first second
      POST_partner_check_first
        [of "\<lparr>userId = Some ''user_1'', params_partnerId = ''p9'',
               body = Some (JObj [(''licensePlate'', JStr ''AB-123-CD'')])\<rparr>"
            "JObj [(''licensePlate'', JStr ''AB-123-CD'')]"
            "\<lparr>partners = [''p1''], vehicles = []\<rparr>" "vehicle_create ''v1'' 0" Map.empty]
      POST_partner_check_first
        [of "\<lparr>userId = Some ''user_1'', params_partnerId = ''p1'',
               body = Some (JObj [(''licensePlate'', JStr ''AB-123-CD'')])\<rparr>"
            "JNull"
            "\<lparr>partners = [''p1''], vehicles = []\<rparr>" "vehicle_create ''v1'' 0" Map.empty]
    by simp
qed

text \<open>
  The claim as stated fails for an authenticated POST whose body is not JSON: no partner
  is stored and the answer is 500.
\<close>

theorem POST_partner_check_first_counterexample:
  "authenticated \<lparr>userId = Some ''user_2'', params_partnerId = ''nobody'', body = None\<rparr> \<and>
   ''nobody'' \<notin> set (partners \<lparr>partners = [], vehicles = []\<rparr>) \<and>
   status_code (fst (POST (vehicle_create ''v1'' 0) Map.empty
          \<lparr>userId = Some ''user_2'', params_partnerId = ''nobody'', body = None\<rparr>
          \<lparr>partners = [], vehicles = []\<rparr>)) = 500"
  by (simp add: authenticated_def POST_def failed_to_add_def)

text \<open>
  C1, as amended. A POST whose body carries the license plate of a stored vehicle (of any
  partner) leaves the stored vehicles as they are; and when the request is authenticated,
  names a stored partner and carries truthy brand, model, year and licensePlate, the
  answer is 400 \<open>A vehicle with this license plate already exists\<close>. The earlier checks
  of the handler answer first: 401, 404 and the 400 of the missing fields.
\<close>

theorem POST_duplicate_plate_400:
  assumes "body req = Some data" and "v \<in> set (vehicles db)"
    and "js_get data ''licensePlate'' = Some (JStr (v_licensePlate v))"
  shows "snd (POST cr dp req db) = db \<and>
         (authenticated req \<and> params_partnerId req \<in> set (partners db) \<and>
          truthy (js_get data ''brand'') \<and> truthy (js_get data ''model'') \<and>
          truthy (js_get data ''year'') \<and> truthy (js_get data ''licensePlate'') \<longrightarrow>
          fst (POST cr dp req db) =
            Response 400 (ErrorJson ''A vehicle with this license plate already exists''))"
  using POST_duplicate_no_write [OF assms]
    POST_duplicate [where req = req and data = data and db = db and v = v and cr = cr and dp = dp]
    assms
  by auto

text \<open>
  The second example of the specification: the same POST repeated, the vehicle of the
  first one stored.
\<close>

theorem POST_duplicate_plate_400_witness:
  "POST (vehicle_create ''v2'' 1700000000500) Map.empty
     \<lparr>userId = Some ''user_1'', params_partnerId = ''p1'',
        body = Some (JObj [(''brand'', JStr ''Mercedes''), (''model'', JStr ''S-Class''),
                           (''year'', JStr ''2022''), (''licensePlate'', JStr ''AB-123-CD''),
                           (''capacity'', JStr ''4'')])\<rparr>
     \<lparr>partners = [''p1''],
        vehicles = [sample_vehicle ''v1'' ''AB-123-CD'' ''p1'' 1700000000000]\<rparr> =
   (Response 400 (ErrorJson ''A vehicle with this license plate already exists''),
    \<lparr>partners = [''p1''],
       vehicles = [sample_vehicle ''v1'' ''AB-123-CD'' ''p1'' 1700000000000]\<rparr>)"
  using POST_duplicate_plate_400
    [of "\<lparr>userId = Some ''user_1'', params_partnerId = ''p1'',
           body = Some (JObj [(''brand'', JStr ''Mercedes''), (''model'', JStr ''S-Class''),
                              (''year'', JStr ''2022''), (''licensePlate'', JStr ''AB-123-CD''),
                              (''capacity'', JStr ''4'')])\<rparr>"
        "JObj [(''brand'', JStr ''Mercedes''), (''model'', JStr ''S-Class''),
               (''year'', JStr ''2022''), (''licensePlate'', JStr ''AB-123-CD''),
               (''capacity'', JStr ''4'')]"
        "sample_vehicle ''v1'' ''AB-123-CD'' ''p1'' 1700000000000"
        "\<lparr>partners = [''p1''],
           vehicles = [sample_vehicle ''v1'' ''AB-123-CD'' ''p1'' 1700000000000]\<rparr>"
        "vehicle_create ''v2'' 1700000000500" Map.empty]
  by (simp add: authenticated_def prod_eq_iff sample_vehicle_def)

text \<open>
  The claim as stated fails where an earlier check answers: the body carries the plate of
  a stored vehicle, the partner of the route does not exist, and the answer is 404.
\<close>

theorem POST_duplicate_plate_counterexample:
  "js_get (JObj [(''brand'', JStr ''Audi''), (''model'', JStr ''A4''), (''year'', JNum 2020),
                 (''licensePlate'', JStr ''ZZ-999-ZZ'')]) ''licensePlate'' =
     Some (JStr (v_licensePlate (sample_vehicle ''v1'' ''ZZ-999-ZZ'' ''p1'' 5))) \<and>
   authenticated \<lparr>userId = Some ''user_1'', params_partnerId = ''p2'',
        body = Some (JObj [(''brand'', JStr ''Audi''), (''model'', JStr ''A4''),
                           (''year'', JNum 2020), (''licensePlate'', JStr ''ZZ-999-ZZ'')])\<rparr> \<and>
   fst (POST (vehicle_create ''v2'' 9) Map.empty
     \<lparr>userId = Some ''user_1'', params_partnerId = ''p2'',
        body = Some (JObj [(''brand'', JStr ''Audi''), (''model'', JStr ''A4''),
                           (''year'', JNum 2020), (''licensePlate'', JStr ''ZZ-999-ZZ'')])\<rparr>
     \<lparr>partners = [''p1''], vehicles = [sample_vehicle ''v1'' ''ZZ-999-ZZ'' ''p1'' 5]\<rparr>) =
   Response 404 (ErrorJson ''Partner not found'')"
  by (simp add: authenticated_def POST_def partner_findUnique_def sample_vehicle_def)

text \<open>
  C3, as amended. An authenticated POST for a stored partner, with a JSON body other than
  \<^verbatim>\<open>null\<close> in which one of brand, model, year, licensePlate is absent or falsy, is
  answered 400 with the message \<open>Missing required fields: \<close> followed by the names of
  exactly the required fields that are absent or falsy, in the order brand, model, year,
  licensePlate and separated by a comma and a space; and nothing is written.
\<close>

theorem POST_missing_fields_400:
  assumes "authenticated req" and "params_partnerId req \<in> set (partners db)"
    and "body req = Some data" and "data \<noteq> JNull"
    and "\<exists>f \<in> set required_fields. \<not> truthy (js_get data f)"
  shows "POST cr dp req db =
     (Response 400
        (ErrorJson (''Missing required fields: '' @
           join '', '' (filter (\<lambda>f. \<not> truthy (js_get data f)) required_fields))), db)"
  using POST_missing [OF assms(1) assms(3) assms(4) assms(2) assms(5)]
  by (simp add: missingFields_filter)

theorem POST_missing_fields_400_witness:
  "POST (vehicle_create ''v1'' 0) Map.empty
     \<lparr>userId = Some ''user_1'', params_partnerId = ''p1'',
        body = Some (JObj [(''brand'', JStr ''Mercedes''), (''year'', JStr ''2022'')])\<rparr>
     \<lparr>partners = [''p1''], vehicles = []\<rparr> =
   (Response 400 (ErrorJson ''Missing required fields: model, licensePlate''),
    \<lparr>partners = [''p1''], vehicles = []\<rparr>)"
  using POST_missing_fields_400
    [of "\<lparr>userId = Some ''user_1'', params_partnerId = ''p1'',
           body = Some (JObj [(''brand'', JStr ''Mercedes''), (''year'', JStr ''2022'')])\<rparr>"
        "\<lparr>partners = [''p1''], vehicles = []\<rparr>"
        "JObj [(''brand'', JStr ''Mercedes''), (''year'', JStr ''2022'')]"
        "vehicle_create ''v1'' 0" Map.empty]
  by (simp add: authenticated_def required_fields_def)

text \<open>
  The claim as stated fails at a body that omits licensePlate and supplies an empty
  brand: the message lists brand, a field that was supplied.
\<close>

theorem POST_missing_fields_counterexample:
  "js_get (JObj [(''brand'', JStr []), (''model'', JStr ''A4''), (''year'', JNum 2020)])
     ''brand'' = Some (JStr []) \<and>
   js_get (JObj [(''brand'', JStr []), (''model'', JStr ''A4''), (''year'', JNum 2020)])
     ''licensePlate'' = None \<and>
   fst (POST (vehicle_create ''v1'' 0) Map.empty
     \<lparr>userId = Some ''user_1'', params_partnerId = ''p1'',
        body = Some (JObj [(''brand'', JStr []), (''model'', JStr ''A4''),
                           (''year'', JNum 2020)])\<rparr>
     \<lparr>partners = [''p1''], vehicles = []\<rparr>) =
   Response 400 (ErrorJson ''Missing required fields: brand, licensePlate'')"
  by (simp add: authenticated_def POST_def partner_findUnique_def missingFields_def)







section \<open>Claims about GET\<close>

lemma vehicle_findMany_mset:
  "mset (vehicle_findMany pid db) =
     filter_mset (\<lambda>v. v_partnerId v = pid) (mset (vehicles db))"
  by (simp add: vehicle_findMany_def)

lemma vehicle_findMany_sorted:
  "sorted_wrt (\<lambda>a b. v_createdAt a \<ge> v_createdAt b) (vehicle_findMany pid db)"
proof -
  have "sorted (map (\<lambda>v. - v_createdAt v) (vehicle_findMany pid db))"
    unfolding vehicle_findMany_def by (rule sorted_sort_key)
  then show ?thesis by (simp add: sorted_map)
qed

lemma vehicle_findMany_empty:
  assumes "\<forall>v \<in> set (vehicles db). v_partnerId v \<noteq> pid"
  shows "vehicle_findMany pid db = []"
proof -
  have "filter (\<lambda>v. v_partnerId v = pid) (vehicles db) = []"
    using assms by (simp add: filter_empty_conv)
  then show ?thesis by (simp add: vehicle_findMany_def)
qed

text \<open>
  C6. An authenticated GET for a stored partner is answered 200 with the list of exactly
  the stored vehicles whose partner reference is the partner's id (each as often as it is
  stored), the later created before the earlier; for a partner without vehicles the list
  is empty.
\<close>

theorem GET_partner_vehicles:
  assumes "authenticated req" and "params_partnerId req \<in> set (partners db)"
  shows "GET req db = Response 200 (VehiclesJson (vehicle_findMany (params_partnerId req) db)) \<and>
         mset (vehicle_findMany (params_partnerId req) db) =
           filter_mset (\<lambda>v. v_partnerId v = params_partnerId req) (mset (vehicles db)) \<and>
         sorted_wrt (\<lambda>a b. v_createdAt a \<ge> v_createdAt b)
           (vehicle_findMany (params_partnerId req) db) \<and>
         ((\<forall>v \<in> set (vehicles db). v_partnerId v \<noteq> params_partnerId req) \<longrightarrow>
            GET req db = Response 200 (VehiclesJson []))"
proof -
  obtain p where "partner_findUnique (params_partnerId req) db = Some p"
    using assms(2) partner_findUnique_Some_iff by blast
  then have "GET req db =
      Response 200 (VehiclesJson (vehicle_findMany (params_partnerId req) db))"
    using assms(1) by (simp add: GET_def)
  then show ?thesis
    using vehicle_findMany_mset vehicle_findMany_sorted vehicle_findMany_empty
    by simp
qed

text \<open>
  Two vehicles of partner \<open>p1\<close> and one of \<open>p2\<close>: the answer to \<open>p1\<close> holds its two, the
  one created last first; the answer to \<open>p3\<close>, who has none, is the empty list.
\<close>

theorem GET_partner_vehicles_witness:
  "GET \<lparr>userId = Some ''user_1'', params_partnerId = ''p1'', body = None\<rparr>
     \<lparr>partners = [''p1'', ''p2'', ''p3''],
        vehicles = [sample_vehicle ''v1'' ''AA-111-AA'' ''p1'' 100,
                    sample_vehicle ''v2'' ''BB-222-BB'' ''p2'' 200,
                    sample_vehicle ''v3'' ''CC-333-CC'' ''p1'' 300]\<rparr> =
   Response 200 (VehiclesJson [sample_vehicle ''v3'' ''CC-333-CC'' ''p1'' 300,
                               sample_vehicle ''v1'' ''AA-111-AA'' ''p1'' 100]) \<and>
   GET \<lparr>userId = Some ''user_1'', params_partnerId = ''p3'', body = None\<rparr>
     \<lparr>partners = [''p1'', ''p2'', ''p3''],
        vehicles = [sample_vehicle ''v1'' ''AA-111-AA'' ''p1'' 100,
                    sample_vehicle ''v2'' ''BB-222-BB'' ''p2'' 200,
                    sample_vehicle ''v3'' ''CC-333-CC'' ''p1'' 300]\<rparr> =
   Response 200 (VehiclesJson [])"
  using GET_partner_vehicles
    [of "\<lparr>userId = Some ''user_1'', params_partnerId = ''p1'', body = None\<rparr>"
        "\<lparr>partners = [''p1'', ''p2'', ''p3''],
        vehicles = [sample_vehicle ''v1'' ''AA-111-AA'' ''p1'' 100,
                    sample_vehicle ''v2'' ''BB-222-BB'' ''p2'' 200,
                    sample_vehicle ''v3'' ''CC-333-CC'' ''p1'' 300]\<rparr>"]
    GET_partner_vehicles
    [of "\<lparr>userId = Some ''user_1'', params_partnerId = ''p3'', body = None\<rparr>"
        "\<lparr>partners = [''p1'', ''p2'', ''p3''],
        vehicles = [sample_vehicle ''v1'' ''AA-111-AA'' ''p1'' 100,
                    sample_vehicle ''v2'' ''BB-222-BB'' ''p2'' 200,
                    sample_vehicle ''v3'' ''CC-333-CC'' ''p1'' 300]\<rparr>"]
  by (simp add: authenticated_def vehicle_findMany_def sample_vehicle_def)

section \<open>Facts about parseInt\<close>

lemma of_char_digit_char:
  "0 \<le> d \<Longrightarrow> d < 10 \<Longrightarrow> (of_char (digit_char d) :: nat) = 48 + nat d"
  by (simp add: digit_char_def)

lemma digit_value_digit_char: "0 \<le> d \<Longrightarrow> d < 10 \<Longrightarrow> digit_value 10 (digit_char d) = Some d"
  by (simp add: digit_value_def of_char_digit_char Let_def)

lemma read_digits_append:
  assumes "\<forall>c \<in> set xs. digit_value r c \<noteq> None"
  shows "read_digits r acc seen (xs @ ys) =
           read_digits r (foldl (\<lambda>a c. a * r + the (digit_value r c)) acc xs)
             (seen \<or> xs \<noteq> []) ys"
  using assms by (induction xs arbitrary: acc seen) auto

lemma decimal_digits_digits:
  "0 \<le> m \<Longrightarrow> \<forall>c \<in> set (decimal_digits m). \<exists>d. 0 \<le> d \<and> d < 10 \<and> c = digit_char d"
proof (induction m rule: decimal_digits.induct)
  case (1 n)
  show ?case
  proof (cases "n < 10")
    case True
    then show ?thesis using "1.prems" by (subst decimal_digits.simps) auto
  next
    case False
    then have "\<forall>c \<in> set (decimal_digits (n div 10)). \<exists>d. 0 \<le> d \<and> d < 10 \<and> c = digit_char d"
      using "1.IH" "1.prems" by simp
    moreover have "0 \<le> n mod 10 \<and> n mod 10 < 10" by simp
    ultimately show ?thesis using False
      by (subst decimal_digits.simps) (auto intro: exI [of _ "n mod 10"])
  qed
qed

lemma decimal_digits_nonempty: "decimal_digits m \<noteq> []"
  by (subst decimal_digits.simps) simp

lemma decimal_digits_digit_values:
  "0 \<le> m \<Longrightarrow> \<forall>c \<in> set (decimal_digits m). digit_value 10 c \<noteq> None"
  using decimal_digits_digits [of m] digit_value_digit_char by fastforce

lemma foldl_decimal_digits:
  "0 \<le> m \<Longrightarrow>
   foldl (\<lambda>a c. a * 10 + the (digit_value 10 c)) acc (decimal_digits m) =
     acc * 10 ^ length (decimal_digits m) + m"
proof (induction m arbitrary: acc rule: decimal_digits.induct)
  case (1 n)
  show ?case
  proof (cases "n < 10")
    case True
    then show ?thesis using "1.prems"
      by (subst (1 2) decimal_digits.simps) (simp add: digit_value_digit_char)
  next
    case False
    have "0 \<le> n div 10" using "1.prems" by simp
    then have "foldl (\<lambda>a c. a * 10 + the (digit_value 10 c)) acc
            (decimal_digits (n div 10) @ [digit_char (n mod 10)]) =
          (acc * 10 ^ length (decimal_digits (n div 10)) + n div 10) * 10 + n mod 10"
      using "1.IH" [OF False] by (simp add: digit_value_digit_char)
    also have "\<dots> =
        acc * 10 ^ length (decimal_digits (n div 10) @ [digit_char (n mod 10)]) + n"
      by (simp add: algebra_simps)
    finally show ?thesis using False
      by (subst (1 2) decimal_digits.simps) simp
  qed
qed

lemma read_digits_decimal_digits:
  assumes "0 \<le> m"
  shows "read_digits 10 0 False (decimal_digits m) = Some m"
  using read_digits_append
    [OF decimal_digits_digit_values [OF assms], where acc = 0 and seen = False and ys = "[]"]
  by (simp add: foldl_decimal_digits [OF assms] decimal_digits_nonempty)

text \<open>A decimal digit is no white space, no sign and no \<open>x\<close>.\<close>

lemma digit_char_plain:
  assumes "0 \<le> d" and "d < 10"
  shows "\<not> is_white_space (digit_char d)" and "digit_char d \<noteq> CHR ''-''"
    and "digit_char d \<noteq> CHR ''+''" and "digit_char d \<noteq> CHR ''x''"
    and "digit_char d \<noteq> CHR ''X''"
proof -
  have k: "(of_char (digit_char d) :: nat) = 48 + nat d"
    using assms by (rule of_char_digit_char)
  show "\<not> is_white_space (digit_char d)"
    using assms by (simp add: is_white_space_def k)
  have "(of_char (digit_char d) :: nat) \<noteq> of_char CHR ''-''"
    and "(of_char (digit_char d) :: nat) \<noteq> of_char CHR ''+''"
    and "(of_char (digit_char d) :: nat) \<noteq> of_char CHR ''x''"
    and "(of_char (digit_char d) :: nat) \<noteq> of_char CHR ''X''"
    using assms by (simp_all add: k)
  then show "digit_char d \<noteq> CHR ''-''" and "digit_char d \<noteq> CHR ''+''"
    and "digit_char d \<noteq> CHR ''x''" and "digit_char d \<noteq> CHR ''X''"
    by auto
qed

lemma strip_sign_plain:
  "c \<noteq> CHR ''-'' \<Longrightarrow> c \<noteq> CHR ''+'' \<Longrightarrow> strip_sign (c # cs) = (False, c # cs)"
  by (simp add: strip_sign_def)

lemma strip_radix_prefix_decimal:
  assumes "\<forall>x \<in> set u. x \<noteq> CHR ''x'' \<and> x \<noteq> CHR ''X''"
  shows "strip_radix_prefix u = (10, u)"
  using assms by (auto simp: strip_radix_prefix_def split: list.splits)

lemma decimal_digits_no_x:
  assumes "0 \<le> m"
  shows "\<forall>x \<in> set (decimal_digits m). x \<noteq> CHR ''x'' \<and> x \<noteq> CHR ''X''"
proof
  fix x
  assume "x \<in> set (decimal_digits m)"
  then obtain d where d: "0 \<le> d" "d < 10" "x = digit_char d"
    using decimal_digits_digits [OF assms] by auto
  show "x \<noteq> CHR ''x'' \<and> x \<noteq> CHR ''X''"
    using digit_char_plain(4,5) [OF d(1,2)] d(3) by simp
qed

text \<open>Below \<open>2 ^ 53\<close> every whole number is a double.\<close>

lemma double_of_int_exact: "m < 2 ^ 53 \<Longrightarrow> double_of_int m = Some m"
  by (simp add: double_of_int_def)

lemma parseInt_string_decimal_digits:
  assumes "0 \<le> m" and "m < 2 ^ 53"
  shows "parseInt_string (decimal_digits m) = Num m"
proof -
  obtain c cs where s: "decimal_digits m = c # cs"
    using decimal_digits_nonempty [of m] by (cases "decimal_digits m") auto
  have "\<exists>d. 0 \<le> d \<and> d < 10 \<and> c = digit_char d"
    using decimal_digits_digits [OF assms(1)] s by simp
  then have c: "\<not> is_white_space c" "c \<noteq> CHR ''-''" "c \<noteq> CHR ''+''"
    using digit_char_plain by auto
  have "dropWhile is_white_space (decimal_digits m) = decimal_digits m"
    using c(1) s by simp
  moreover have "strip_sign (decimal_digits m) = (False, decimal_digits m)"
    using strip_sign_plain [OF c(2,3)] s by simp
  ultimately show ?thesis
    by (simp add: parseInt_string_def
          strip_radix_prefix_decimal [OF decimal_digits_no_x [OF assms(1)]]
          read_digits_decimal_digits [OF assms(1)] double_of_int_exact [OF assms(2)])
qed

lemma parseInt_string_int_to_string:
  assumes "\<bar>n\<bar> < 2 ^ 53"
  shows "parseInt_string (int_to_string n) = Num n"
proof (cases "n < 0")
  case False
  then show ?thesis using assms
    by (simp add: int_to_string_def parseInt_string_decimal_digits)
next
  case True
  then have m: "0 \<le> - n" "- n < 2 ^ 53" using assms by simp_all
  have "dropWhile is_white_space (CHR ''-'' # decimal_digits (- n)) =
          CHR ''-'' # decimal_digits (- n)"
    by (simp add: is_white_space_def)
  moreover have "strip_sign (CHR ''-'' # decimal_digits (- n)) = (True, decimal_digits (- n))"
    by (simp add: strip_sign_def)
  ultimately have "parseInt_string (CHR ''-'' # decimal_digits (- n)) = Num (- (- n))"
    by (simp add: parseInt_string_def
          strip_radix_prefix_decimal [OF decimal_digits_no_x [OF m(1)]]
          read_digits_decimal_digits [OF m(1)] double_of_int_exact [OF m(2)])
  then show ?thesis using True by (simp add: int_to_string_def)
qed

text \<open>The string of a whole number below \<open>2 ^ 53\<close> is its decimal numeral.\<close>

lemma number_to_string_whole:
  assumes "\<bar>n\<bar> < 2 ^ 53"
  shows "number_to_string n 0 = int_to_string n"
  using assms by (auto simp: number_to_string_def int_to_string_def Let_def abs_if)

lemma parseInt_number:
  "\<bar>n\<bar> < 2 ^ 53 \<Longrightarrow> parseInt (Some (JNum n)) = Inr (Num n)"
  by (simp add: parseInt_def js_to_string_def number_to_string_whole
        parseInt_string_int_to_string)

lemma parseInt_numeral_string:
  "\<bar>n\<bar> < 2 ^ 53 \<Longrightarrow> parseInt (Some (JStr (int_to_string n))) = Inr (Num n)"
  by (simp add: parseInt_def js_to_string_def parseInt_string_int_to_string)

lemma parseInt_string_undefined: "parseInt_string ''undefined'' = NaN"
  by (simp add: parseInt_string_def is_white_space_def strip_sign_def strip_radix_prefix_def
        digit_value_def)

lemma parseInt_undefined: "parseInt None = Inr NaN"
  by (simp add: parseInt_def js_to_string_def parseInt_string_undefined)

text \<open>The two descriptions of white space and of digits agree.\<close>

lemma white_space_iff: "c \<in> set white_space \<longleftrightarrow> is_white_space c"
proof -
  have "c = char_of k \<longleftrightarrow> of_char c = k" if "k < 256" for k :: nat
    using that char_of_eq_iff [of k c] by (auto simp: take_bit_nat_eq_self_iff)
  then show ?thesis
    by (simp add: white_space_def is_white_space_def)
qed

lemma skip_white_space_dropWhile: "skip_white_space s = dropWhile is_white_space s"
  by (induction s) (simp_all add: white_space_iff)

lemma is_digit_iff: "is_digit c \<longleftrightarrow> 48 \<le> (of_char c :: nat) \<and> (of_char c :: nat) \<le> 57"
proof -
  have "(48 \<le> (k :: nat) \<and> k \<le> 57) = (k \<in> of_char ` set ''0123456789'')" for k
    by (simp, arith)
  then have "(48 \<le> (of_char c :: nat) \<and> (of_char c :: nat) \<le> 57) =
      ((of_char c :: nat) \<in> of_char ` set ''0123456789'')"
    by simp
  also have "\<dots> = is_digit c"
    unfolding is_digit_def by (rule inj_image_mem_iff) (simp add: inj_def)
  finally show ?thesis by simp
qed

lemma no_digit_value: "\<not> is_digit c \<Longrightarrow> digit_value 10 c = None"
  by (auto simp: is_digit_iff digit_value_def Let_def)

lemma no_digit_first:
  assumes "first_is_no_digit u"
  shows "strip_radix_prefix u = (10, u)" and "read_digits 10 0 False u = None"
proof -
  have zero: "is_digit CHR ''0''" by (simp add: is_digit_def)
  show "strip_radix_prefix u = (10, u)"
    using assms zero by (cases u) (auto simp: strip_radix_prefix_def split: list.splits)
  show "read_digits 10 0 False u = None"
    using assms by (cases u) (simp_all add: no_digit_value)
qed

lemma parseInt_string_no_leading_integer:
  assumes "no_leading_integer s"
  shows "parseInt_string s = NaN"
proof -
  define t where "t = dropWhile is_white_space s"
  obtain negative u where su: "strip_sign t = (negative, u)"
    by (cases "strip_sign t")
  have nli: "case t of [] \<Rightarrow> True
             | c # cs \<Rightarrow> if c = CHR ''-'' \<or> c = CHR ''+'' then first_is_no_digit cs
                          else \<not> is_digit c"
    using assms by (simp add: no_leading_integer_def skip_white_space_dropWhile t_def)
  have "first_is_no_digit u"
    using nli su by (cases t) (auto simp: strip_sign_def split: if_splits)
  from no_digit_first [OF this] show ?thesis
    by (simp add: parseInt_string_def t_def [symmetric] su)
qed

section \<open>Facts about the persistence layer\<close>

lemma to_vehicle_Some:
  assumes "to_vehicle new_id now d = Some v"
  shows "as_integer (data_year d) = Some (v_year v)"
    and "as_integer (data_capacity d) = Some (v_capacity v)"
    and "as_boolean (data_isForeignPlate d) = Some (v_isForeignPlate v)"
    and "as_vehicle_type (data_vehicleType d) = Some (v_vehicleType v)"
    and "as_vehicle_status (data_status d) = Some (v_status v)"
    and "as_optional_timestamp (data_lastMaintenance d) = Some (v_lastMaintenance v)"
    and "as_text (data_licensePlate d) = Some (v_licensePlate v)"
    and "v_partnerId v = data_partnerId d"
  using assms by (auto simp: to_vehicle_def split: option.splits)

lemma vehicle_create_Inr:
  assumes "vehicle_create new_id now d db = Inr (v, db')"
  shows "to_vehicle new_id now d = Some v"
    and "db' = db\<lparr>vehicles := vehicles db @ [v]\<rparr>"
    and "v_licensePlate v \<notin> set (map v_licensePlate (vehicles db))"
  using assms by (auto simp: vehicle_create_def split: option.splits if_splits)

lemma as_integer_Some: "as_integer x = Some n \<longleftrightarrow> x = Num n"
  by (cases x) (auto simp: as_integer_def)

text \<open>A value that is no whole number is refused.\<close>

lemma vehicle_create_refuses:
  assumes "data_capacity d = NaN \<or> data_year d = NaN"
  shows "vehicle_create new_id now d db = Inl ValidationError"
proof -
  have "to_vehicle new_id now d = None"
  proof (cases "to_vehicle new_id now d")
    case (Some v)
    from to_vehicle_Some(1,2) [OF this] assms show ?thesis
      by (auto simp: as_integer_Some)
  qed simp
  then show ?thesis by (simp add: vehicle_create_def)
qed

text \<open>The object of lines 100 to 115, when nothing has thrown.\<close>

lemma create_data_Inr:
  assumes "create_data dp data pid = Inr d"
  shows "parseInt (js_get data ''year'') = Inr (data_year d)"
    and "parseInt (js_get data ''capacity'') = Inr (data_capacity d)"
    and "data_isForeignPlate d = js_or (js_get data ''isForeignPlate'') (JBool False)"
    and "data_vehicleType d = js_or (js_get data ''vehicleType'') (JStr ''SEDAN'')"
    and "data_status d = js_or (js_get data ''status'') (JStr ''AVAILABLE'')"
    and "\<not> truthy (js_get data ''lastMaintenance'') \<Longrightarrow> data_lastMaintenance d = None"
    and "truthy (js_get data ''lastMaintenance'') \<Longrightarrow>
           \<exists>x. new_Date dp (the (js_get data ''lastMaintenance'')) = Inr x \<and>
               data_lastMaintenance d = Some x"
    and "data_partnerId d = pid"
  using assms
  by (auto simp: create_data_def split: sum.splits if_splits)

text \<open>Only the year and the last maintenance can make lines 95 to 115 throw.\<close>

lemma create_data_Inl:
  assumes "create_data dp data pid = Inl exn"
  shows "parseInt (js_get data ''year'') = Inl exn \<or>
         parseInt (js_get data ''capacity'') = Inl exn \<or>
         (truthy (js_get data ''lastMaintenance'') \<and>
          new_Date dp (the (js_get data ''lastMaintenance'')) = Inl exn)"
  using assms
  by (auto simp: create_data_def split: sum.splits if_splits)

text \<open>What a successful POST has stored, in terms of the object given to \<^verbatim>\<open>create\<close>.\<close>

lemma POST_200_stored:
  assumes "POST (vehicle_create new_id now) dp req db = (Response 200 (VehicleJson v), db')"
    and "body req = Some data"
  shows "\<exists>d. create_data dp data (params_partnerId req) = Inr d \<and>
             to_vehicle new_id now d = Some v"
    and "db' = db\<lparr>vehicles := vehicles db @ [v]\<rparr>"
proof -
  obtain data' d where b: "body req = Some data'"
    and cd: "create_data dp data' (params_partnerId req) = Inr d"
    and c: "vehicle_create new_id now d db = Inr (v, db')"
    using POST_200_created [OF assms(1)] by blast
  have "data' = data" using b assms(2) by simp
  then show "\<exists>d. create_data dp data (params_partnerId req) = Inr d \<and>
             to_vehicle new_id now d = Some v"
    and "db' = db\<lparr>vehicles := vehicles db @ [v]\<rparr>"
    using vehicle_create_Inr [OF c] cd by auto
qed

section \<open>Claims about a successful POST\<close>

text \<open>
  C4, as amended. When a POST succeeds (status 200 with the created record), the year and
  the capacity of the returned record are the whole numbers that \<^verbatim>\<open>parseInt\<close> reads
  from the submitted values; and a year or capacity submitted as a whole number \<open>n\<close>
  of magnitude below \<open>2 ^ 53\<close>, as a number or as the string of its decimal numeral,
  comes back as \<open>n\<close>.
\<close>

theorem POST_success_integers:
  assumes "POST (vehicle_create new_id now) dp req db = (Response 200 (VehicleJson v), db')"
    and "body req = Some data"
  shows "parseInt (js_get data ''year'') = Inr (Num (v_year v)) \<and>
         parseInt (js_get data ''capacity'') = Inr (Num (v_capacity v)) \<and>
         (\<forall>n. \<bar>n\<bar> < 2 ^ 53 \<and>
              (js_get data ''year'' = Some (JNum n) \<or>
               js_get data ''year'' = Some (JStr (int_to_string n))) \<longrightarrow> v_year v = n) \<and>
         (\<forall>n. \<bar>n\<bar> < 2 ^ 53 \<and>
              (js_get data ''capacity'' = Some (JNum n) \<or>
               js_get data ''capacity'' = Some (JStr (int_to_string n))) \<longrightarrow>
              v_capacity v = n)"
proof -
  obtain d where cd: "create_data dp data (params_partnerId req) = Inr d"
    and stored: "to_vehicle new_id now d = Some v"
    using POST_200_stored(1) [OF assms] by blast
  have y: "parseInt (js_get data ''year'') = Inr (Num (v_year v))"
    using to_vehicle_Some(1) [OF stored] create_data_Inr(1) [OF cd]
    by (simp add: as_integer_Some)
  have c: "parseInt (js_get data ''capacity'') = Inr (Num (v_capacity v))"
    using to_vehicle_Some(2) [OF stored] create_data_Inr(2) [OF cd]
    by (simp add: as_integer_Some)
  have "v_year v = n"
    if "\<bar>n\<bar> < 2 ^ 53" and "js_get data ''year'' = Some (JNum n) \<or>
        js_get data ''year'' = Some (JStr (int_to_string n))" for n
    using that y parseInt_number [of n] parseInt_numeral_string [of n] by auto
  moreover have "v_capacity v = n"
    if "\<bar>n\<bar> < 2 ^ 53" and "js_get data ''capacity'' = Some (JNum n) \<or>
        js_get data ''capacity'' = Some (JStr (int_to_string n))" for n
    using that c parseInt_number [of n] parseInt_numeral_string [of n] by auto
  ultimately show ?thesis using y c by blast
qed

text \<open>
  The first example of the specification, its capacity submitted as a number: the year
  \<open>"2022"\<close>, a string, and the capacity 4 come back as the numbers 2022 and 4.
\<close>

theorem POST_success_integers_witness:
  "POST (vehicle_create ''v1'' 1700000000000) Map.empty
     \<lparr>userId = Some ''user_1'', params_partnerId = ''p1'',
        body = Some (JObj [(''brand'', JStr ''Mercedes''), (''model'', JStr ''S-Class''),
                           (''year'', JStr ''2022''), (''licensePlate'', JStr ''AB-123-CD''),
                           (''capacity'', JNum 4)])\<rparr>
     \<lparr>partners = [''p1''], vehicles = []\<rparr> =
   (Response 200 (VehicleJson (sample_vehicle ''v1'' ''AB-123-CD'' ''p1'' 1700000000000)),
    \<lparr>partners = [''p1''],
       vehicles = [sample_vehicle ''v1'' ''AB-123-CD'' ''p1'' 1700000000000]\<rparr>) \<and>
   int_to_string 2022 = ''2022'' \<and>
   v_year (sample_vehicle ''v1'' ''AB-123-CD'' ''p1'' 1700000000000) = 2022 \<and>
   v_capacity (sample_vehicle ''v1'' ''AB-123-CD'' ''p1'' 1700000000000) = 4"
proof -
  let ?data = "JObj [(''brand'', JStr ''Mercedes''), (''model'', JStr ''S-Class''),
                     (''year'', JStr ''2022''), (''licensePlate'', JStr ''AB-123-CD''),
                     (''capacity'', JNum 4)]"
  let ?v = "sample_vehicle ''v1'' ''AB-123-CD'' ''p1'' 1700000000000"
  have ok: "POST (vehicle_create ''v1'' 1700000000000) Map.empty
     \<lparr>userId = Some ''user_1'', params_partnerId = ''p1'', body = Some ?data\<rparr>
     \<lparr>partners = [''p1''], vehicles = []\<rparr> =
   (Response 200 (VehicleJson ?v), \<lparr>partners = [''p1''], vehicles = [?v]\<rparr>)"
  proof -
    have "parseInt (Some (JStr ''2022'')) = Inr (Num 2022)"
      by code_simp
    then show ?thesis
      by (simp add: POST_def authenticated_def partner_findUnique_def vehicle_findUnique_def
            create_data_def Let_def parseInt_number
            vehicle_create_def to_vehicle_def as_text_def as_integer_def as_boolean_def
            js_or_def as_optional_text_def as_vehicle_type_def as_vehicle_status_def
            as_optional_timestamp_def sample_vehicle_def)
  qed
  have numeral: "int_to_string 2022 = ''2022''"
    by code_simp
  have year: "js_get ?data ''year'' = Some (JStr (int_to_string 2022))"
    and capacity: "js_get ?data ''capacity'' = Some (JNum 4)"
    by (simp_all add: numeral)
  have "v_year ?v = 2022 \<and> v_capacity ?v = 4"
    using POST_success_integers [OF ok, of ?data] year capacity by simp
  then show ?thesis using ok numeral by simp
qed

text \<open>
  The claim as stated fails beyond that range. The number \<open>1e21\<close> is printed as
  \<^verbatim>\<open>1e+21\<close>, of which \<^verbatim>\<open>parseInt\<close> reads 1: the POST succeeds and the year of the
  returned record is 1. And of the string \<^verbatim>\<open>9007199254740993\<close> it reads the double
  next to it, 9007199254740992.
\<close>

theorem POST_success_integers_counterexample:
  "POST (vehicle_create ''v1'' 1700000000000) Map.empty
     \<lparr>userId = Some ''user_1'', params_partnerId = ''p1'',
        body = Some (JObj [(''brand'', JStr ''Mercedes''), (''model'', JStr ''S-Class''),
                           (''year'', JNum 1000000000000000000000),
                           (''licensePlate'', JStr ''AB-123-CD''), (''capacity'', JNum 4)])\<rparr>
     \<lparr>partners = [''p1''], vehicles = []\<rparr> =
   (Response 200 (VehicleJson
      ((sample_vehicle ''v1'' ''AB-123-CD'' ''p1'' 1700000000000)\<lparr>v_year := 1\<rparr>)),
    \<lparr>partners = [''p1''],
       vehicles = [(sample_vehicle ''v1'' ''AB-123-CD'' ''p1'' 1700000000000)
                     \<lparr>v_year := 1\<rparr>]\<rparr>) \<and>
   parseInt (Some (JStr ''9007199254740993'')) = Inr (Num 9007199254740992)"
proof -
  have large: "parseInt (Some (JNum 1000000000000000000000)) = Inr (Num 1)"
    by code_simp
  have string: "parseInt (Some (JStr ''9007199254740993'')) = Inr (Num 9007199254740992)"
    by code_simp
  show ?thesis
    using large string
    by (simp add: POST_def authenticated_def partner_findUnique_def vehicle_findUnique_def
          create_data_def Let_def parseInt_number
          vehicle_create_def to_vehicle_def as_text_def as_integer_def as_boolean_def
          js_or_def as_optional_text_def as_vehicle_type_def as_vehicle_status_def
          as_optional_timestamp_def sample_vehicle_def)
qed

text \<open>
  C5, as amended. When a POST succeeds, the created record is the one stored, and it has
  vehicle type SEDAN when the body supplies no vehicleType, status AVAILABLE when the
  body supplies no status, and the foreign-plate flag false when the body supplies no
  isForeignPlate. Its last maintenance is the timestamp that \<^verbatim>\<open>Date.parse\<close> reads
  from the body's lastMaintenance when that is a string; it is null when the body's
  lastMaintenance is absent or falsy (null, false, 0, the empty string); and for any
  truthy lastMaintenance, a string or not, it is the date that \<^verbatim>\<open>new Date\<close> makes
  of the value.
\<close>

theorem POST_success_defaults:
  assumes "POST (vehicle_create new_id now) dp req db = (Response 200 (VehicleJson v), db')"
    and "body req = Some data"
  shows "vehicles db' = vehicles db @ [v] \<and>
         (js_get data ''vehicleType'' = None \<longrightarrow> v_vehicleType v = SEDAN) \<and>
         (js_get data ''status'' = None \<longrightarrow> v_status v = AVAILABLE) \<and>
         (js_get data ''isForeignPlate'' = None \<longrightarrow> v_isForeignPlate v = False) \<and>
         (\<forall>s. js_get data ''lastMaintenance'' = Some (JStr s) \<longrightarrow>
              v_lastMaintenance v = Date_parse dp s) \<and>
         (\<not> truthy (js_get data ''lastMaintenance'') \<longrightarrow> v_lastMaintenance v = None) \<and>
         (\<forall>x. js_get data ''lastMaintenance'' = Some x \<and> truthy (Some x) \<longrightarrow>
              (\<exists>t. new_Date dp x = Inr (Date t) \<and> v_lastMaintenance v = Some t))"
proof -
  obtain d where cd: "create_data dp data (params_partnerId req) = Inr d"
    and stored: "to_vehicle new_id now d = Some v"
    using POST_200_stored(1) [OF assms] by blast
  note fields = create_data_Inr [OF cd]
  have "vehicles db' = vehicles db @ [v]"
    using POST_200_stored(2) [OF assms] by simp
  moreover have "v_vehicleType v = SEDAN" if "js_get data ''vehicleType'' = None"
    using to_vehicle_Some(4) [OF stored] that
    by (simp add: fields(4) js_or_def as_vehicle_type_def)
  moreover have "v_status v = AVAILABLE" if "js_get data ''status'' = None"
    using to_vehicle_Some(5) [OF stored] that
    by (simp add: fields(5) js_or_def as_vehicle_status_def)
  moreover have "v_isForeignPlate v = False" if "js_get data ''isForeignPlate'' = None"
    using to_vehicle_Some(3) [OF stored] that
    by (simp add: fields(3) js_or_def as_boolean_def)
  moreover have falsy: "v_lastMaintenance v = None"
    if "\<not> truthy (js_get data ''lastMaintenance'')"
    using to_vehicle_Some(6) [OF stored] fields(6) [OF that]
    by (simp add: as_optional_timestamp_def)
  moreover have made: "\<exists>t. new_Date dp x = Inr (Date t) \<and> v_lastMaintenance v = Some t"
    if "js_get data ''lastMaintenance'' = Some x" and "truthy (Some x)" for x
  proof -
    have "truthy (js_get data ''lastMaintenance'')" using that by simp
    from fields(7) [OF this]
    have "\<exists>y. new_Date dp x = Inr y \<and> data_lastMaintenance d = Some y"
      by (simp add: that(1))
    then obtain y where y: "new_Date dp x = Inr y"
      and "data_lastMaintenance d = Some y"
      by blast
    then show ?thesis using to_vehicle_Some(6) [OF stored]
      by (cases y) (simp_all add: as_optional_timestamp_def)
  qed
  moreover have "v_lastMaintenance v = Date_parse dp s"
    if s: "js_get data ''lastMaintenance'' = Some (JStr s)" for s
  proof (cases "s = []")
    case True
    then show ?thesis using falsy s by (simp add: Date_parse_def)
  next
    case False
    then obtain t where "new_Date dp (JStr s) = Inr (Date t)" and "v_lastMaintenance v = Some t"
      using made [OF s] by auto
    then show ?thesis by (auto simp: new_Date_def split: option.splits)
  qed
  ultimately show ?thesis by blast
qed

text \<open>
  A body with the four required fields, a capacity and a maintenance date, read by an
  engine that takes \<open>2024-01-15\<close> for 1705276800000; and the same body without the
  date.
\<close>

theorem POST_success_defaults_witness:
  "POST (vehicle_create ''v1'' 1700000000000) (map_of [(''2024-01-15'', 1705276800000)])
     \<lparr>userId = Some ''user_1'', params_partnerId = ''p1'',
        body = Some (JObj [(''brand'', JStr ''Mercedes''), (''model'', JStr ''S-Class''),
                           (''year'', JNum 2022), (''licensePlate'', JStr ''AB-123-CD''),
                           (''capacity'', JNum 4), (''lastMaintenance'', JStr ''2024-01-15'')])\<rparr>
     \<lparr>partners = [''p1''], vehicles = []\<rparr> =
   (Response 200 (VehicleJson
      ((sample_vehicle ''v1'' ''AB-123-CD'' ''p1'' 1700000000000)
         \<lparr>v_lastMaintenance := Some 1705276800000\<rparr>)),
    \<lparr>partners = [''p1''],
       vehicles = [(sample_vehicle ''v1'' ''AB-123-CD'' ''p1'' 1700000000000)
                     \<lparr>v_lastMaintenance := Some 1705276800000\<rparr>]\<rparr>) \<and>
   v_lastMaintenance ((sample_vehicle ''v1'' ''AB-123-CD'' ''p1'' 1700000000000)
                        \<lparr>v_lastMaintenance := Some 1705276800000\<rparr>) =
     Date_parse (map_of [(''2024-01-15'', 1705276800000)]) ''2024-01-15'' \<and>
   POST (vehicle_create ''v1'' 1700000000000) Map.empty
     \<lparr>userId = Some ''user_1'', params_partnerId = ''p1'',
        body = Some (JObj [(''brand'', JStr ''Mercedes''), (''model'', JStr ''S-Class''),
                           (''year'', JNum 2022), (''licensePlate'', JStr ''AB-123-CD''),
                           (''capacity'', JNum 4)])\<rparr>
     \<lparr>partners = [''p1''], vehicles = []\<rparr> =
   (Response 200 (VehicleJson (sample_vehicle ''v1'' ''AB-123-CD'' ''p1'' 1700000000000)),
    \<lparr>partners = [''p1''],
       vehicles = [sample_vehicle ''v1'' ''AB-123-CD'' ''p1'' 1700000000000]\<rparr>) \<and>
   v_lastMaintenance (sample_vehicle ''v1'' ''AB-123-CD'' ''p1'' 1700000000000) = None \<and>
   v_vehicleType (sample_vehicle ''v1'' ''AB-123-CD'' ''p1'' 1700000000000) = SEDAN"
proof -
  let ?dated = "JObj [(''brand'', JStr ''Mercedes''), (''model'', JStr ''S-Class''),
                      (''year'', JNum 2022), (''licensePlate'', JStr ''AB-123-CD''),
                      (''capacity'', JNum 4), (''lastMaintenance'', JStr ''2024-01-15'')]"
  let ?plain = "JObj [(''brand'', JStr ''Mercedes''), (''model'', JStr ''S-Class''),
                      (''year'', JNum 2022), (''licensePlate'', JStr ''AB-123-CD''),
                      (''capacity'', JNum 4)]"
  let ?v = "sample_vehicle ''v1'' ''AB-123-CD'' ''p1'' 1700000000000"
  have dated: "POST (vehicle_create ''v1'' 1700000000000)
       (map_of [(''2024-01-15'', 1705276800000)])
       \<lparr>userId = Some ''user_1'', params_partnerId = ''p1'', body = Some ?dated\<rparr>
       \<lparr>partners = [''p1''], vehicles = []\<rparr> =
     (Response 200 (VehicleJson (?v\<lparr>v_lastMaintenance := Some 1705276800000\<rparr>)),
      \<lparr>partners = [''p1''],
         vehicles = [?v\<lparr>v_lastMaintenance := Some 1705276800000\<rparr>]\<rparr>)"
    by (simp add: POST_def authenticated_def partner_findUnique_def vehicle_findUnique_def
          create_data_def Let_def parseInt_number new_Date_def Date_parse_def
          vehicle_create_def to_vehicle_def as_text_def as_integer_def as_boolean_def
          js_or_def as_optional_text_def as_vehicle_type_def as_vehicle_status_def
          as_optional_timestamp_def sample_vehicle_def)
  have plain: "POST (vehicle_create ''v1'' 1700000000000) Map.empty
       \<lparr>userId = Some ''user_1'', params_partnerId = ''p1'', body = Some ?plain\<rparr>
       \<lparr>partners = [''p1''], vehicles = []\<rparr> =
     (Response 200 (VehicleJson ?v), \<lparr>partners = [''p1''], vehicles = [?v]\<rparr>)"
    by (simp add: POST_def authenticated_def partner_findUnique_def vehicle_findUnique_def
          create_data_def Let_def parseInt_number
          vehicle_create_def to_vehicle_def as_text_def as_integer_def as_boolean_def
          js_or_def as_optional_text_def as_vehicle_type_def as_vehicle_status_def
          as_optional_timestamp_def sample_vehicle_def)
  have "v_lastMaintenance (?v\<lparr>v_lastMaintenance := Some 1705276800000\<rparr>) =
          Date_parse (map_of [(''2024-01-15'', 1705276800000)]) ''2024-01-15''"
    using POST_success_defaults [OF dated, of ?dated] by simp
  moreover have "v_lastMaintenance ?v = None \<and> v_vehicleType ?v = SEDAN"
    using POST_success_defaults [OF plain, of ?plain] by simp
  ultimately show ?thesis using dated plain by simp
qed

text \<open>
  The claim as stated fails at a lastMaintenance that is truthy and no string: the body
  supplies the number 86400000, the POST succeeds, and the last maintenance of the
  created record is that time, not null.
\<close>

theorem POST_success_defaults_counterexample:
  "js_get (JObj [(''brand'', JStr ''Mercedes''), (''model'', JStr ''S-Class''),
                 (''year'', JNum 2022), (''licensePlate'', JStr ''AB-123-CD''),
                 (''capacity'', JNum 4), (''lastMaintenance'', JNum 86400000)])
     ''lastMaintenance'' = Some (JNum 86400000) \<and>
   POST (vehicle_create ''v1'' 1700000000000) Map.empty
     \<lparr>userId = Some ''user_1'', params_partnerId = ''p1'',
        body = Some (JObj [(''brand'', JStr ''Mercedes''), (''model'', JStr ''S-Class''),
                           (''year'', JNum 2022), (''licensePlate'', JStr ''AB-123-CD''),
                           (''capacity'', JNum 4), (''lastMaintenance'', JNum 86400000)])\<rparr>
     \<lparr>partners = [''p1''], vehicles = []\<rparr> =
   (Response 200 (VehicleJson
      ((sample_vehicle ''v1'' ''AB-123-CD'' ''p1'' 1700000000000)
         \<lparr>v_lastMaintenance := Some 86400000\<rparr>)),
    \<lparr>partners = [''p1''],
       vehicles = [(sample_vehicle ''v1'' ''AB-123-CD'' ''p1'' 1700000000000)
                     \<lparr>v_lastMaintenance := Some 86400000\<rparr>]\<rparr>)"
  by (simp add: POST_def authenticated_def partner_findUnique_def vehicle_findUnique_def
        create_data_def Let_def parseInt_number new_Date_def time_clip_def
        vehicle_create_def to_vehicle_def as_text_def as_integer_def as_boolean_def
        js_or_def as_optional_text_def as_vehicle_type_def as_vehicle_status_def
        as_optional_timestamp_def sample_vehicle_def)

section \<open>The claim about capacity\<close>

text \<open>The body of a 200 is a vehicle.\<close>

lemma POST_200_payload:
  assumes "POST cr dp req db = (Response 200 p, db')"
  shows "\<exists>v. p = VehicleJson v"
  using assms
  by (auto simp: POST_def failed_to_add_def Let_def
           split: option.splits sum.splits prod.splits if_splits)

text \<open>
  C10, as amended. The handler neither defaults nor validates capacity. For every POST
  body in which capacity is absent or is a string with no leading integer:
  \<^verbatim>\<open>parseInt\<close> of it is NaN, and NaN (not an integer, not the form's default 4) is the
  capacity of whatever object lines 95 to 115 build; no check of the handler answers the
  request on that account, for once the request is authenticated, the partner exists,
  the four required fields are truthy and the plate is new, the answer is 500 if those
  lines throw and otherwise the outcome of \<^verbatim>\<open>create\<close>, whatever persistence layer is
  behind it. With the persistence layer of the specification, whose capacity is an
  integer, \<^verbatim>\<open>create\<close> refuses the object: such a request is never answered 200, and
  past the handler's checks it is answered 500 and nothing is stored.
\<close>

theorem POST_capacity_unchecked:
  assumes "js_get data ''capacity'' = None \<or>
           (\<exists>s. js_get data ''capacity'' = Some (JStr s) \<and> no_leading_integer s)"
  shows "parseInt (js_get data ''capacity'') = Inr NaN \<and>
         (\<forall>d. create_data dp data pid = Inr d \<longrightarrow> data_capacity d = NaN) \<and>
         (authenticated req \<and> body req = Some data \<and> data \<noteq> JNull \<and>
          params_partnerId req \<in> set (partners db) \<and>
          (\<forall>f \<in> set required_fields. truthy (js_get data f)) \<and>
          (\<forall>v \<in> set (vehicles db).
              js_get data ''licensePlate'' \<noteq> Some (JStr (v_licensePlate v))) \<longrightarrow>
            POST cr dp req db =
              (case create_data dp data (params_partnerId req) of
                 Inl exn \<Rightarrow> failed_to_add db
               | Inr vehicle_data \<Rightarrow>
                   (case cr vehicle_data db of
                      Inl exn \<Rightarrow> failed_to_add db
                    | Inr (vehicle, db') \<Rightarrow> (Response 200 (VehicleJson vehicle), db'))) \<and>
            POST (vehicle_create new_id now) dp req db = failed_to_add db) \<and>
         (body req = Some data \<longrightarrow>
            status_code (fst (POST (vehicle_create new_id now) dp req db)) \<noteq> 200)"
proof -
  have nan: "parseInt (js_get data ''capacity'') = Inr NaN"
  proof (cases "js_get data ''capacity''")
    case None
    then show ?thesis by (simp add: parseInt_undefined)
  next
    case (Some x)
    with assms obtain s where "x = JStr s" and "no_leading_integer s" by auto
    then show ?thesis using Some
      by (simp add: parseInt_def js_to_string_def parseInt_string_no_leading_integer)
  qed
  have cap: "data_capacity d = NaN" if "create_data dp data p = Inr d" for d p
    using create_data_Inr(2) [OF that] nan by simp
  have reach: "POST cr' dp req db =
      (case create_data dp data (params_partnerId req) of
         Inl exn \<Rightarrow> failed_to_add db
       | Inr vehicle_data \<Rightarrow>
           (case cr' vehicle_data db of
              Inl exn \<Rightarrow> failed_to_add db
            | Inr (vehicle, db') \<Rightarrow> (Response 200 (VehicleJson vehicle), db')))"
    if "authenticated req" "body req = Some data" "data \<noteq> JNull"
      "params_partnerId req \<in> set (partners db)"
      "\<forall>f \<in> set required_fields. truthy (js_get data f)"
      "\<forall>v \<in> set (vehicles db). js_get data ''licensePlate'' \<noteq> Some (JStr (v_licensePlate v))"
    for cr'
    using that by (rule POST_reaches_create)
  have refused: "POST (vehicle_create new_id now) dp req db = failed_to_add db"
    if g: "authenticated req" "body req = Some data" "data \<noteq> JNull"
      "params_partnerId req \<in> set (partners db)"
      "\<forall>f \<in> set required_fields. truthy (js_get data f)"
      "\<forall>v \<in> set (vehicles db). js_get data ''licensePlate'' \<noteq> Some (JStr (v_licensePlate v))"
  proof (cases "create_data dp data (params_partnerId req)")
    case (Inl exn)
    then show ?thesis using reach [OF g] by simp
  next
    case (Inr d)
    have "vehicle_create new_id now d db = Inl ValidationError"
      using cap [OF Inr] by (simp add: vehicle_create_refuses)
    then show ?thesis using reach [OF g] Inr by simp
  qed
  have never: "status_code (fst (POST (vehicle_create new_id now) dp req db)) \<noteq> 200"
    if b: "body req = Some data"
  proof
    assume ok: "status_code (fst (POST (vehicle_create new_id now) dp req db)) = 200"
    obtain r db' where r: "POST (vehicle_create new_id now) dp req db = (r, db')"
      by (cases "POST (vehicle_create new_id now) dp req db")
    obtain c p where rp: "r = Response c p" by (cases r)
    have c: "c = 200" using ok r rp by simp
    obtain v where v: "p = VehicleJson v"
      using POST_200_payload r rp c by blast
    obtain data' d where b': "body req = Some data'"
      and cd: "create_data dp data' (params_partnerId req) = Inr d"
      and cr: "vehicle_create new_id now d db = Inr (v, db')"
      using POST_200_created [of "vehicle_create new_id now" dp req db v db'] r rp c v
      by auto
    have "data' = data" using b b' by simp
    then have "data_capacity d = NaN" using cap cd by simp
    then show False using cr by (simp add: vehicle_create_refuses)
  qed
  show ?thesis using nan cap reach refused never by blast
qed

text \<open>
  A valid body whose capacity is the word \<open>four\<close>, and the same body with no capacity:
  both pass every check of the handler and are refused by the persistence layer.
\<close>

theorem POST_capacity_unchecked_witness:
  "parseInt (Some (JStr ''four'')) = Inr NaN \<and>
   POST (vehicle_create ''v1'' 1700000000000) Map.empty
     \<lparr>userId = Some ''user_1'', params_partnerId = ''p1'',
        body = Some (JObj [(''brand'', JStr ''Mercedes''), (''model'', JStr ''S-Class''),
                           (''year'', JNum 2022), (''licensePlate'', JStr ''AB-123-CD''),
                           (''capacity'', JStr ''four'')])\<rparr>
     \<lparr>partners = [''p1''], vehicles = []\<rparr> =
   (Response 500 (ErrorJson ''Failed to add vehicle''), \<lparr>partners = [''p1''], vehicles = []\<rparr>) \<and>
   parseInt None = Inr NaN \<and>
   POST (vehicle_create ''v1'' 1700000000000) Map.empty
     \<lparr>userId = Some ''user_1'', params_partnerId = ''p1'',
        body = Some (JObj [(''brand'', JStr ''Mercedes''), (''model'', JStr ''S-Class''),
                           (''year'', JNum 2022), (''licensePlate'', JStr ''AB-123-CD'')])\<rparr>
     \<lparr>partners = [''p1''], vehicles = []\<rparr> =
   (Response 500 (ErrorJson ''Failed to add vehicle''), \<lparr>partners = [''p1''], vehicles = []\<rparr>)"
proof -
  let ?word = "JObj [(''brand'', JStr ''Mercedes''), (''model'', JStr ''S-Class''),
                     (''year'', JNum 2022), (''licensePlate'', JStr ''AB-123-CD''),
                     (''capacity'', JStr ''four'')]"
  let ?none = "JObj [(''brand'', JStr ''Mercedes''), (''model'', JStr ''S-Class''),
                     (''year'', JNum 2022), (''licensePlate'', JStr ''AB-123-CD'')]"
  let ?db = "\<lparr>partners = [''p1''], vehicles = []\<rparr>"
  let ?req = "\<lambda>b. \<lparr>userId = Some ''user_1'', params_partnerId = ''p1'', body = Some b\<rparr>"
  have four: "no_leading_integer ''four''" by code_simp
  have "js_get ?word ''capacity'' = None \<or>
        (\<exists>s. js_get ?word ''capacity'' = Some (JStr s) \<and> no_leading_integer s)"
    using four by simp
  note at_word = POST_capacity_unchecked [OF this, of Map.empty "''p1''" "?req ?word" ?db
      "vehicle_create ''v1'' 1700000000000" "''v1''" 1700000000000]
  have "authenticated (?req ?word) \<and> body (?req ?word) = Some ?word \<and> ?word \<noteq> JNull \<and>
        params_partnerId (?req ?word) \<in> set (partners ?db) \<and>
        (\<forall>f \<in> set required_fields. truthy (js_get ?word f)) \<and>
        (\<forall>v \<in> set (vehicles ?db).
            js_get ?word ''licensePlate'' \<noteq> Some (JStr (v_licensePlate v)))"
    by (simp add: authenticated_def required_fields_def)
  from at_word [THEN conjunct2, THEN conjunct2, THEN conjunct1, THEN mp, OF this]
  have word_500: "POST (vehicle_create ''v1'' 1700000000000) Map.empty (?req ?word) ?db =
      failed_to_add ?db"
    by (rule conjunct2)
  have word_nan: "parseInt (Some (JStr ''four'')) = Inr NaN"
    using at_word [THEN conjunct1] by simp
  have "js_get ?none ''capacity'' = None \<or>
        (\<exists>s. js_get ?none ''capacity'' = Some (JStr s) \<and> no_leading_integer s)"
    by simp
  note at_none = POST_capacity_unchecked [OF this, of Map.empty "''p1''" "?req ?none" ?db
      "vehicle_create ''v1'' 1700000000000" "''v1''" 1700000000000]
  have "authenticated (?req ?none) \<and> body (?req ?none) = Some ?none \<and> ?none \<noteq> JNull \<and>
        params_partnerId (?req ?none) \<in> set (partners ?db) \<and>
        (\<forall>f \<in> set required_fields. truthy (js_get ?none f)) \<and>
        (\<forall>v \<in> set (vehicles ?db).
            js_get ?none ''licensePlate'' \<noteq> Some (JStr (v_licensePlate v)))"
    by (simp add: authenticated_def required_fields_def)
  from at_none [THEN conjunct2, THEN conjunct2, THEN conjunct1, THEN mp, OF this]
  have none_500: "POST (vehicle_create ''v1'' 1700000000000) Map.empty (?req ?none) ?db =
      failed_to_add ?db"
    by (rule conjunct2)
  have none_nan: "parseInt None = Inr NaN"
    using at_none [THEN conjunct1] by simp
  show ?thesis
    unfolding word_500 none_500 word_nan none_nan by (simp add: failed_to_add_def)
qed

text \<open>
  The claim as stated fails at the end: with the persistence layer of the specification
  the request is rejected on account of its capacity. The body of the specification's
  example without the capacity is answered 500 and nothing is stored; the same body
  with capacity 4 is answered 200.
\<close>

theorem POST_capacity_unchecked_counterexample:
  "js_get (JObj [(''brand'', JStr ''Mercedes''), (''model'', JStr ''S-Class''),
                 (''year'', JNum 2022), (''licensePlate'', JStr ''AB-123-CD'')])
     ''capacity'' = None \<and>
   POST (vehicle_create ''v1'' 1700000000000) Map.empty
     \<lparr>userId = Some ''user_1'', params_partnerId = ''p1'',
        body = Some (JObj [(''brand'', JStr ''Mercedes''), (''model'', JStr ''S-Class''),
                           (''year'', JNum 2022), (''licensePlate'', JStr ''AB-123-CD'')])\<rparr>
     \<lparr>partners = [''p1''], vehicles = []\<rparr> =
   (Response 500 (ErrorJson ''Failed to add vehicle''), \<lparr>partners = [''p1''], vehicles = []\<rparr>) \<and>
   POST (vehicle_create ''v1'' 1700000000000) Map.empty
     \<lparr>userId = Some ''user_1'', params_partnerId = ''p1'',
        body = Some (JObj [(''brand'', JStr ''Mercedes''), (''model'', JStr ''S-Class''),
                           (''year'', JNum 2022), (''licensePlate'', JStr ''AB-123-CD''),
                           (''capacity'', JNum 4)])\<rparr>
     \<lparr>partners = [''p1''], vehicles = []\<rparr> =
   (Response 200 (VehicleJson (sample_vehicle ''v1'' ''AB-123-CD'' ''p1'' 1700000000000)),
    \<lparr>partners = [''p1''],
       vehicles = [sample_vehicle ''v1'' ''AB-123-CD'' ''p1'' 1700000000000]\<rparr>)"
  by (simp add: POST_def authenticated_def partner_findUnique_def vehicle_findUnique_def
        create_data_def Let_def parseInt_number parseInt_undefined failed_to_add_def
        vehicle_create_def to_vehicle_def as_text_def as_integer_def as_boolean_def
        js_or_def as_optional_text_def as_vehicle_type_def as_vehicle_status_def
        as_optional_timestamp_def sample_vehicle_def)

section \<open>Claims about the plate of the car form\<close>

lemma regex_test_Cons:
  "regex_test ((a, n) # rest) s =
     (n \<le> length s \<and> (\<forall>c \<in> set (take n s). atom_matches a c) \<and> regex_test rest (drop n s))"
proof (induction n arbitrary: s)
  case 0
  show ?case by simp
next
  case (Suc n)
  show ?case by (cases s) (auto simp: Suc)
qed

lemma Range_A_Z: "atom_matches (Range CHR ''A'' CHR ''Z'') c = is_uppercase_letter c"
proof -
  have "(65 \<le> (k :: nat) \<and> k \<le> 90) = (k \<in> of_char ` set ''ABCDEFGHIJKLMNOPQRSTUVWXYZ'')" for k
    by (simp, arith)
  then have "atom_matches (Range CHR ''A'' CHR ''Z'') c =
      ((of_char c :: nat) \<in> of_char ` set ''ABCDEFGHIJKLMNOPQRSTUVWXYZ'')"
    by simp
  also have "\<dots> = is_uppercase_letter c"
    unfolding is_uppercase_letter_def by (rule inj_image_mem_iff) (simp add: inj_def)
  finally show ?thesis .
qed

lemma Digit_0_9: "atom_matches Digit c = is_digit c"
proof -
  have "(48 \<le> (k :: nat) \<and> k \<le> 57) = (k \<in> of_char ` set ''0123456789'')" for k
    by (simp, arith)
  then have "atom_matches Digit c = ((of_char c :: nat) \<in> of_char ` set ''0123456789'')"
    by simp
  also have "\<dots> = is_digit c"
    unfolding is_digit_def by (rule inj_image_mem_iff) (simp add: inj_def)
  finally show ?thesis .
qed

lemma all_take_Suc:
  "n < length s \<Longrightarrow> (\<forall>c \<in> set (take (Suc n) s). P c) = ((\<forall>c \<in> set (take n s). P c) \<and> P (s ! n))"
  by (auto simp: take_Suc_conv_app_nth)


lemma length_9:
  assumes "length s = 9"
  shows "\<exists>a b h d1 d2 d3 k c e. s = [a, b, h, d1, d2, d3, k, c, e]"
proof -
  have "length s = Suc (Suc (Suc (Suc (Suc (Suc (Suc (Suc (Suc 0))))))))"
    using assms by simp
  then show ?thesis by (auto simp: length_Suc_conv)
qed

lemma regex_test_length: "regex_test ps s \<Longrightarrow> length s = sum_list (map snd ps)"
proof (induction ps arbitrary: s)
  case Nil
  then show ?case by simp
next
  case (Cons p ps)
  obtain a n where p: "p = (a, n)" by (cases p)
  have "n \<le> length s" and "regex_test ps (drop n s)"
    using Cons.prems by (simp_all add: p regex_test_Cons)
  then show ?case using Cons.IH [of "drop n s"] by (simp add: p)
qed

lemma isFrenchPlateFormat_iff: "isFrenchPlateFormat s = xx_123_xx s"
proof (cases "length s = 9")
  case False
  have "regex_test plate_regex s \<Longrightarrow> length s = 9"
    using regex_test_length [of plate_regex s] by (simp add: plate_regex_def)
  then show ?thesis using False by (auto simp: isFrenchPlateFormat_def xx_123_xx_def)
next
  case True
  then obtain a b h d1 d2 d3 k c e where s: "s = [a, b, h, d1, d2, d3, k, c, e]"
    using length_9 by blast
  have "regex_test plate_regex [a, b, h, d1, d2, d3, k, c, e] =
      (is_uppercase_letter a \<and> is_uppercase_letter b \<and> h = CHR ''-'' \<and>
       is_digit d1 \<and> is_digit d2 \<and> is_digit d3 \<and> k = CHR ''-'' \<and>
       is_uppercase_letter c \<and> is_uppercase_letter e)"
    unfolding plate_regex_def
    by (simp add: regex_test_Cons Range_A_Z Digit_0_9 del: atom_matches.simps(1,2))
  then show ?thesis
    unfolding s isFrenchPlateFormat_def xx_123_xx_def by simp
qed

lemma form_ok_effect:
  assumes "timer f = None"
  shows "form_ok (effect f)"
  using assms by (auto simp: form_ok_def effect_def Let_def)

lemma form_ok_mount: "form_ok (mount toggle plate)"
  unfolding mount_def by (rule form_ok_effect) simp

lemma form_ok_step:
  assumes "form_ok f"
  shows "form_ok (fst (step e f))"
proof (cases e)
  case (Keystroke s)
  show ?thesis
  proof (cases "s = licensePlate f")
    case True
    have "form_ok (f\<lparr>lastKeystroke := Some (clock f)\<rparr>)"
      using assms by (auto simp: form_ok_def split: option.splits)
    then show ?thesis using True Keystroke by (simp add: Let_def)
  next
    case False
    have "form_ok (effect (cleanup (f\<lparr>lastKeystroke := Some (clock f), licensePlate := s\<rparr>)))"
      by (rule form_ok_effect) (simp add: cleanup_def)
    then show ?thesis using False Keystroke by (simp add: Let_def)
  qed
next
  case (Toggle b)
  show ?thesis
  proof (cases "b = isFrenchPlate f")
    case True
    then show ?thesis using assms Toggle by simp
  next
    case False
    have "form_ok (effect (cleanup (f\<lparr>isFrenchPlate := b\<rparr>)))"
      by (rule form_ok_effect) (simp add: cleanup_def)
    then show ?thesis using False Toggle by simp
  qed
next
  case (Elapse dt)
  then show ?thesis using assms
    by (auto simp: form_ok_def Let_def split: option.splits)
qed

lemma form_ok_run: "form_ok f \<Longrightarrow> form_ok (run es f)"
  by (induction es arbitrary: f) (simp_all add: form_ok_step)

lemma step_lookup:
  assumes "form_ok f" and "p \<in> set (snd (step e f))"
  shows "isFrenchPlateFormat p \<and> p = licensePlate f \<and> isFrenchPlate f \<and>
         (\<exists>dt. e = Elapse dt \<and> lastChange f + quiet_period \<le> clock f + dt)"
proof (cases e)
  case (Keystroke s)
  then show ?thesis using assms(2) by (simp add: Let_def split: if_splits)
next
  case (Toggle b)
  then show ?thesis using assms(2) by (simp split: if_splits)
next
  case (Elapse dt)
  then show ?thesis using assms
    by (auto simp: form_ok_def Let_def split: option.splits if_splits)
qed

text \<open>
  C7, as amended. The plate-format predicate of the form accepts exactly the strings
  made of two uppercase letters, a hyphen, three digits, a hyphen and two uppercase
  letters. And at every moment of the life of the form, from its first render on, a
  plate is looked up only when time passes, the plate is the one in the field and has
  the format, the toggle is on, and the quiet period (1000 milliseconds) has passed
  since the effect last ran, that is since the text of the plate or the toggle last
  changed, or since the first render.
\<close>

theorem plate_lookup_trigger:
  "(isFrenchPlateFormat plate \<longleftrightarrow> xx_123_xx plate) \<and>
   (\<forall>p \<in> set (snd (step e (run es (mount toggle dflt)))).
      isFrenchPlateFormat p \<and>
      p = licensePlate (run es (mount toggle dflt)) \<and>
      isFrenchPlate (run es (mount toggle dflt)) \<and>
      (\<exists>dt. e = Elapse dt \<and>
         lastChange (run es (mount toggle dflt)) + quiet_period \<le>
           clock (run es (mount toggle dflt)) + dt))"
proof -
  have ok: "form_ok (run es (mount toggle dflt))"
    by (rule form_ok_run) (rule form_ok_mount)
  have "isFrenchPlateFormat p \<and>
      p = licensePlate (run es (mount toggle dflt)) \<and>
      isFrenchPlate (run es (mount toggle dflt)) \<and>
      (\<exists>dt. e = Elapse dt \<and>
         lastChange (run es (mount toggle dflt)) + quiet_period \<le>
           clock (run es (mount toggle dflt)) + dt)"
    if "p \<in> set (snd (step e (run es (mount toggle dflt))))" for p
    using step_lookup [OF ok that] by auto
  then show ?thesis
    using isFrenchPlateFormat_iff [of plate] by simp
qed

lemma plate_example: "isFrenchPlateFormat ''AB-123-CD''"
  by (simp add: isFrenchPlateFormat_iff xx_123_xx_def is_uppercase_letter_def is_digit_def)

text \<open>
  The form is rendered with the toggle on and an empty plate; after 200 milliseconds the
  plate \<open>AB-123-CD\<close> is in the field; 1000 milliseconds later it is looked up.
\<close>

theorem plate_lookup_trigger_witness:
  "snd (step (Elapse 1000) (run [Elapse 200, Keystroke ''AB-123-CD''] (mount True []))) =
     [''AB-123-CD''] \<and>
   isFrenchPlateFormat ''AB-123-CD'' \<and> xx_123_xx ''AB-123-CD'' \<and>
   licensePlate (run [Elapse 200, Keystroke ''AB-123-CD''] (mount True [])) = ''AB-123-CD'' \<and>
   isFrenchPlate (run [Elapse 200, Keystroke ''AB-123-CD''] (mount True [])) \<and>
   lastChange (run [Elapse 200, Keystroke ''AB-123-CD''] (mount True [])) = 200 \<and>
   200 + quiet_period \<le> clock (run [Elapse 200, Keystroke ''AB-123-CD''] (mount True [])) + 1000"
proof -
  have fired: "snd (step (Elapse 1000)
        (run [Elapse 200, Keystroke ''AB-123-CD''] (mount True []))) = [''AB-123-CD'']"
    and change: "lastChange (run [Elapse 200, Keystroke ''AB-123-CD''] (mount True [])) = 200"
    by (simp_all add: mount_def effect_def cleanup_def quiet_period_def plate_example Let_def)
  show ?thesis
    using fired change
      plate_lookup_trigger [of "''AB-123-CD''" "Elapse 1000"
        "[Elapse 200, Keystroke ''AB-123-CD'']" True "[]"]
    by (auto simp del: run.simps step.simps)
qed

text \<open>
  The claim as stated measures the quiet period from the last keystroke, and fails at a
  keystroke that leaves the text as it is: the plate \<open>AB-123-CD\<close> is in the field from
  time 0, a key that does not change it is pressed at 600, no dependency of the effect
  has changed and the timer of time 0 is still pending, and the plate is looked up at
  1000, which is 400 milliseconds after the last keystroke.
\<close>

theorem plate_lookup_trigger_counterexample:
  "snd (step (Elapse 400)
         (run [Keystroke ''AB-123-CD'', Elapse 600, Keystroke ''AB-123-CD'']
            (mount True []))) = [''AB-123-CD''] \<and>
   lastKeystroke (run [Keystroke ''AB-123-CD'', Elapse 600, Keystroke ''AB-123-CD'']
                    (mount True [])) = Some 600 \<and>
   clock (run [Keystroke ''AB-123-CD'', Elapse 600, Keystroke ''AB-123-CD'']
            (mount True [])) + 400 < 600 + quiet_period"
  by (simp add: mount_def effect_def cleanup_def quiet_period_def plate_example Let_def)

end
